theory Spec2Isabelle
  imports Complex_Main "HOL-Library.Word"
begin

unbundle bit_operations_syntax

section \<open>IBM PS/2 ESDI fixed disk adapter (MCA): the protocol engine of hdc_esdi_mca.c\<close>

text \<open>
  The development embeds the register handlers \<^verbatim>\<open>esdi_read\<close>, \<^verbatim>\<open>esdi_write\<close>,
  \<^verbatim>\<open>esdi_readw\<close>, \<^verbatim>\<open>esdi_writew\<close> and the timer callback \<^verbatim>\<open>esdi_callback\<close> of
  \<^verbatim>\<open>src/disk/hdc_esdi_mca.c\<close>. The adapter structure is a record, every \<^verbatim>\<open>fatal()\<close> is
  an error value, the collaborators (timer, interrupt controller, DMA channel, disk image)
  are an explicit environment that the handlers take and return.
\<close>

subsection \<open>Machine types and the constants of the source\<close>

type_synonym u8 = "8 word"
type_synonym u16 = "16 word"
type_synonym u32 = "32 word"

text \<open>
  Times are C doubles in the source and reals here. The constants of the source and
  every time of the examples below are multiples of 1/8 far below \<open>2\<^sup>5\<^sup>3\<close>, which a
  double holds and adds exactly.
\<close>

abbreviation ESDI_TIME :: real where "ESDI_TIME \<equiv> 500"

abbreviation STATUS_DMA_ENA :: u8 where "STATUS_DMA_ENA \<equiv> 0x80"
abbreviation STATUS_IRQ_PENDING :: u8 where "STATUS_IRQ_PENDING \<equiv> 0x40"
abbreviation STATUS_CMD_IN_PROGRESS :: u8 where "STATUS_CMD_IN_PROGRESS \<equiv> 0x20"
abbreviation STATUS_BUSY :: u8 where "STATUS_BUSY \<equiv> 0x10"
abbreviation STATUS_STATUS_OUT_FULL :: u8 where "STATUS_STATUS_OUT_FULL \<equiv> 0x08"
abbreviation STATUS_CMD_IR_FULL :: u8 where "STATUS_CMD_IR_FULL \<equiv> 0x04"
abbreviation STATUS_TRANSFER_REQ :: u8 where "STATUS_TRANSFER_REQ \<equiv> 0x02"
abbreviation STATUS_IRQ :: u8 where "STATUS_IRQ \<equiv> 0x01"

abbreviation CTRL_RESET :: u8 where "CTRL_RESET \<equiv> 0x80"
abbreviation CTRL_DMA_ENA :: u8 where "CTRL_DMA_ENA \<equiv> 0x02"
abbreviation CTRL_IRQ_ENA :: u8 where "CTRL_IRQ_ENA \<equiv> 0x01"

abbreviation IRQ_HOST_ADAPTER :: int where "IRQ_HOST_ADAPTER \<equiv> 0xe0"
abbreviation IRQ_CMD_COMPLETE_SUCCESS :: int where "IRQ_CMD_COMPLETE_SUCCESS \<equiv> 0x1"
abbreviation IRQ_RESET_COMPLETE :: int where "IRQ_RESET_COMPLETE \<equiv> 0xa"
abbreviation IRQ_DATA_TRANSFER_READY :: int where "IRQ_DATA_TRANSFER_READY \<equiv> 0xb"
abbreviation IRQ_CMD_COMPLETE_FAILURE :: int where "IRQ_CMD_COMPLETE_FAILURE \<equiv> 0xc"

abbreviation ATTN_DEVICE_SEL :: u8 where "ATTN_DEVICE_SEL \<equiv> 0xe0"
abbreviation ATTN_HOST_ADAPTER :: int where "ATTN_HOST_ADAPTER \<equiv> 0xe0"
abbreviation ATTN_DEVICE_0 :: int where "ATTN_DEVICE_0 \<equiv> 0x00"
abbreviation ATTN_DEVICE_1 :: int where "ATTN_DEVICE_1 \<equiv> 0x20"
abbreviation ATTN_REQ_MASK :: u8 where "ATTN_REQ_MASK \<equiv> 0x0f"
abbreviation ATTN_CMD_REQ :: u8 where "ATTN_CMD_REQ \<equiv> 1"
abbreviation ATTN_EOI :: u8 where "ATTN_EOI \<equiv> 2"
abbreviation ATTN_RESET :: u8 where "ATTN_RESET \<equiv> 4"

abbreviation CMD_SIZE_4 :: u16 where "CMD_SIZE_4 \<equiv> 0x4000"
abbreviation CMD_DEVICE_SEL :: u16 where "CMD_DEVICE_SEL \<equiv> 0xe0"
abbreviation CMD_MASK :: u16 where "CMD_MASK \<equiv> 0x1f"
abbreviation CMD_READ :: int where "CMD_READ \<equiv> 0x01"
abbreviation CMD_WRITE :: int where "CMD_WRITE \<equiv> 0x02"
abbreviation CMD_READ_VERIFY :: int where "CMD_READ_VERIFY \<equiv> 0x03"
abbreviation CMD_WRITE_VERIFY :: int where "CMD_WRITE_VERIFY \<equiv> 0x04"
abbreviation CMD_SEEK :: int where "CMD_SEEK \<equiv> 0x05"
abbreviation CMD_PARK_HEADS :: int where "CMD_PARK_HEADS \<equiv> 0x06"
abbreviation CMD_GET_DEV_STATUS :: int where "CMD_GET_DEV_STATUS \<equiv> 0x08"
abbreviation CMD_GET_DEV_CONFIG :: int where "CMD_GET_DEV_CONFIG \<equiv> 0x09"
abbreviation CMD_GET_POS_INFO :: int where "CMD_GET_POS_INFO \<equiv> 0x0a"
abbreviation CMD_FORMAT_UNIT :: int where "CMD_FORMAT_UNIT \<equiv> 0x16"
abbreviation CMD_FORMAT_PREPARE :: int where "CMD_FORMAT_PREPARE \<equiv> 0x17"

definition STATUS_LEN :: "int \<Rightarrow> int" where
  "STATUS_LEN x = push_bit 8 x"

definition STATUS_DEVICE :: "int \<Rightarrow> int" where
  "STATUS_DEVICE x = push_bit 5 x"

abbreviation STATUS_DEVICE_HOST_ADAPTER :: int where "STATUS_DEVICE_HOST_ADAPTER \<equiv> 0xe0"

text \<open>
  Modelled from the spec: \<^verbatim>\<open>DMA_NODATA\<close> is declared in \<^verbatim>\<open>86box/dma.h\<close>, which is not
  among the sources; it is the "distinguished no-data result" of the DMA channel
  (section 6 of the specification), the integer \<open>-1\<close>.
\<close>

abbreviation DMA_NODATA :: int where "DMA_NODATA \<equiv> - 1"

subsection \<open>The adapter state\<close>

text \<open>
  \<^verbatim>\<open>drive_t\<close>. The \<^verbatim>\<open>int\<close> fields are integers; \<^verbatim>\<open>present\<close> only ever holds 0 or 1
  and is a boolean.
\<close>

record drive_t =
  spt :: int
  hpc :: int
  tracks :: int
  sectors :: int
  present :: bool
  hdd_num :: nat

text \<open>
  \<^verbatim>\<open>esdi_t\<close>. Fixed-width fields are words. The flags \<^verbatim>\<open>irq_ena_disable\<close>,
  \<^verbatim>\<open>irq_in_progress\<close>, \<^verbatim>\<open>cmd_req_in_progress\<close> and \<^verbatim>\<open>in_reset\<close> are C ints that are only
  assigned 0 or 1 and only tested for being non-zero: they are booleans here. The cursors
  \<^verbatim>\<open>cmd_pos\<close>, \<^verbatim>\<open>status_pos\<close>, \<^verbatim>\<open>status_len\<close>, \<^verbatim>\<open>data_pos\<close>, \<^verbatim>\<open>sector_pos\<close>,
  \<^verbatim>\<open>sector_count\<close> and \<^verbatim>\<open>cmd_state\<close> are C ints that are only assigned constants,
  16-bit unsigned values and increments below a bound of at most 65535: they are naturals.
  \<^verbatim>\<open>command\<close> and \<^verbatim>\<open>cmd_dev\<close> stay integers. Arrays are lists, which
  \<^verbatim>\<open>esdi_init\<close> creates with their C lengths. The fields \<^verbatim>\<open>dma\<close>, \<^verbatim>\<open>bios\<close>, \<^verbatim>\<open>bios_rom\<close> and \<^verbatim>\<open>cmds\<close> belong to
  the bus configuration and are not read by the protocol engine; the timer is part of the
  environment.
\<close>

record esdi_t =
  basic_ctrl :: u8
  status :: u8
  irq_status :: u8
  irq_ena_disable :: bool
  irq_in_progress :: bool
  cmd_req_in_progress :: bool
  cmd_pos :: nat
  cmd_data :: "u16 list"
  cmd_dev :: int
  status_pos :: nat
  status_len :: nat
  status_data :: "u16 list"
  data_pos :: nat
  data :: "u16 list"
  sector_buffer :: "u16 list list"
  sector_pos :: nat
  sector_count :: nat
  command :: int
  cmd_state :: nat
  in_reset :: bool
  rba :: u32
  drives :: "drive_t list"
  pos_regs :: "u8 list"

subsection \<open>The environment: timer, interrupt line, DMA channel, disk images\<close>

datatype disk_op = Img_read nat u32 | Img_write nat u32 | Img_zero nat u32

text \<open>
  Modelled from the spec: the collaborators of section 6 are not among the sources.
  \<open>timer\<close> is the delay of the one pending callback of this adapter (\<open>None\<close>: stopped);
  \<open>irq_line\<close> is the level last given to the interrupt controller for line 14;
  \<open>dma_rd\<close> and \<open>dma_wr\<close> are the results the channel will give to the next calls of
  \<^verbatim>\<open>dma_channel_read\<close> and \<^verbatim>\<open>dma_channel_write\<close> (an exhausted list answers
  \<^verbatim>\<open>DMA_NODATA\<close>), \<open>dma_out\<close> the words the channel has accepted; \<open>disk\<close> maps an image
  number and a sector to its 256 words, \<open>disk_log\<close> lists the image operations performed.
\<close>

record env =
  timer :: "real option"
  irq_line :: bool
  dma_rd :: "int list"
  dma_wr :: "int list"
  dma_out :: "u16 list"
  disk :: "nat \<Rightarrow> u32 \<Rightarrow> u16 list"
  disk_log :: "disk_op list"

text \<open>
  Modelled from the spec: the drive model consumed by the adapter (section 6: last
  addressable sector, image I/O failure, seek/read/write cost). These are read-only
  for the adapter.
\<close>

record hdd_model =
  last_sector :: "nat \<Rightarrow> u32"
  read_fails :: "nat \<Rightarrow> u32 \<Rightarrow> bool"
  write_fails :: "nat \<Rightarrow> u32 \<Rightarrow> bool"
  timing_read :: "nat \<Rightarrow> u32 \<Rightarrow> nat \<Rightarrow> real"
  timing_write :: "nat \<Rightarrow> u32 \<Rightarrow> nat \<Rightarrow> real"
  seek_time :: "nat \<Rightarrow> u32 \<Rightarrow> real"

datatype error =
    Fatal_read_past_end
  | Fatal_write_past_end
  | Fatal_irq_in_progress
  | Fatal_sector_buffer_count
  | Fatal_bad_command
  | Fatal_cmd_req_in_progress
  | Fatal_bad_attention
  | Fatal_unknown_device
  | Fatal_bad_port
  | Fatal_cir_pos
  | Fatal_device_mismatch
  | Index_out_of_bounds

text \<open>Modelled from the spec: \<^verbatim>\<open>picint_common\<close> for line 14 sets or clears the line.\<close>

definition picint_common :: "bool \<Rightarrow> env \<Rightarrow> env" where
  "picint_common level e = e\<lparr>irq_line := level\<rparr>"

text \<open>
  Modelled from the spec: \<^verbatim>\<open>timer_stop\<close> and \<^verbatim>\<open>timer_on_auto\<close>; scheduling replaces any
  pending callback (section 5).
\<close>

definition timer_stop :: "env \<Rightarrow> env" where
  "timer_stop e = e\<lparr>timer := None\<rparr>"

definition timer_on_auto :: "real \<Rightarrow> env \<Rightarrow> env" where
  "timer_on_auto period e = e\<lparr>timer := Some period\<rparr>"

text \<open>
  Modelled from the spec: one call of \<^verbatim>\<open>dma_channel_read\<close>; the result is the next
  scripted value, \<^verbatim>\<open>DMA_NODATA\<close> when none is left.
\<close>

definition dma_channel_read :: "env \<Rightarrow> int \<times> env" where
  "dma_channel_read e =
     (case dma_rd e of [] \<Rightarrow> (DMA_NODATA, e) | v # vs \<Rightarrow> (v, e\<lparr>dma_rd := vs\<rparr>))"

text \<open>
  Modelled from the spec: one call of \<^verbatim>\<open>dma_channel_write\<close>; a result other than
  \<^verbatim>\<open>DMA_NODATA\<close> means the channel took the word.
\<close>

definition dma_channel_write :: "u16 \<Rightarrow> env \<Rightarrow> int \<times> env" where
  "dma_channel_write w e =
     (case dma_wr e of
        [] \<Rightarrow> (DMA_NODATA, e)
      | v # vs \<Rightarrow>
          (v, if v = DMA_NODATA then e\<lparr>dma_wr := vs\<rparr>
              else e\<lparr>dma_wr := vs, dma_out := dma_out e @ [w]\<rparr>))"

text \<open>
  Modelled from the spec: \<^verbatim>\<open>hdd_image_read\<close> of one sector; \<open>None\<close> is a negative
  return value (image I/O failure).
\<close>

definition hdd_image_read :: "hdd_model \<Rightarrow> nat \<Rightarrow> u32 \<Rightarrow> env \<Rightarrow> u16 list option \<times> env" where
  "hdd_image_read hw n a e =
     (if read_fails hw n a then None else Some (disk e n a),
      e\<lparr>disk_log := disk_log e @ [Img_read n a]\<rparr>)"

text \<open>
  Modelled from the spec: \<^verbatim>\<open>hdd_image_write\<close> of one sector; \<open>False\<close> is a negative
  return value.
\<close>

definition hdd_image_write :: "hdd_model \<Rightarrow> nat \<Rightarrow> u32 \<Rightarrow> u16 list \<Rightarrow> env \<Rightarrow> bool \<times> env" where
  "hdd_image_write hw n a buf e =
     (if write_fails hw n a then (False, e\<lparr>disk_log := disk_log e @ [Img_write n a]\<rparr>)
      else (True, e\<lparr>disk := (disk e)(n := (disk e n)(a := buf)),
                     disk_log := disk_log e @ [Img_write n a]\<rparr>))"

text \<open>Modelled from the spec: \<^verbatim>\<open>hdd_image_zero\<close> of \<open>cnt\<close> sectors from sector 0.\<close>

definition hdd_image_zero :: "nat \<Rightarrow> u32 \<Rightarrow> env \<Rightarrow> env" where
  "hdd_image_zero n cnt e =
     e\<lparr>disk := (disk e)(n := (\<lambda>a. if a < cnt then replicate 256 0 else disk e n a)),
       disk_log := disk_log e @ [Img_zero n cnt]\<rparr>"

subsection \<open>Interrupt helpers and the callback scheduler\<close>

definition set_irq :: "esdi_t \<times> env \<Rightarrow> esdi_t \<times> env" where
  "set_irq = (\<lambda>(s, e).
     (s\<lparr>irq_ena_disable := True\<rparr>,
      if basic_ctrl s AND CTRL_IRQ_ENA \<noteq> 0 then picint_common True e else e))"

definition clear_irq :: "esdi_t \<times> env \<Rightarrow> esdi_t \<times> env" where
  "clear_irq = (\<lambda>(s, e).
     (s\<lparr>irq_ena_disable := False\<rparr>,
      if basic_ctrl s AND CTRL_IRQ_ENA \<noteq> 0 then picint_common False e else e))"

definition update_irq :: "esdi_t \<times> env \<Rightarrow> esdi_t \<times> env" where
  "update_irq = (\<lambda>(s, e).
     (s, picint_common (basic_ctrl s AND CTRL_IRQ_ENA \<noteq> 0 \<and> irq_ena_disable s) e))"

definition esdi_mca_set_callback :: "real \<Rightarrow> env \<Rightarrow> env" where
  "esdi_mca_set_callback callback e =
     (if callback = 0 then timer_stop e else timer_on_auto callback e)"

definition esdi_mca_get_xfer_time :: "nat \<Rightarrow> real" where
  "esdi_mca_get_xfer_time sz = (3125 / 8) * real sz"

subsection \<open>Status blocks\<close>

definition cmd_unsupported :: "esdi_t \<times> env \<Rightarrow> esdi_t \<times> env" where
  "cmd_unsupported = (\<lambda>(s, e).
     set_irq
       (s\<lparr>status_len := 9,
          status_data := (status_data s)
            [0 := word_of_int (command s OR STATUS_LEN 9 OR cmd_dev s),
             1 := 0x0f03, 2 := 0x0002, 3 := 0, 4 := 0, 5 := 0, 6 := 0, 7 := 0, 8 := 0],
          status := STATUS_IRQ OR STATUS_STATUS_OUT_FULL,
          irq_status := word_of_int (cmd_dev s OR IRQ_CMD_COMPLETE_FAILURE),
          irq_in_progress := True\<rparr>, e))"

definition device_not_present :: "esdi_t \<times> env \<Rightarrow> esdi_t \<times> env" where
  "device_not_present = (\<lambda>(s, e).
     set_irq
       (s\<lparr>status_len := 9,
          status_data := (status_data s)
            [0 := word_of_int (command s OR STATUS_LEN 9 OR cmd_dev s),
             1 := 0x0c11, 2 := 0x000b, 3 := 0, 4 := 0, 5 := 0, 6 := 0, 7 := 0, 8 := 0],
          status := STATUS_IRQ OR STATUS_STATUS_OUT_FULL,
          irq_status := word_of_int (cmd_dev s OR IRQ_CMD_COMPLETE_FAILURE),
          irq_in_progress := True\<rparr>, e))"

definition rba_out_of_range :: "esdi_t \<times> env \<Rightarrow> esdi_t \<times> env" where
  "rba_out_of_range = (\<lambda>(s, e).
     set_irq
       (s\<lparr>status_len := 9,
          status_data := (status_data s)
            [0 := word_of_int (command s OR STATUS_LEN 9 OR cmd_dev s),
             1 := 0x0e01, 2 := 0x0007, 3 := 0, 4 := 0, 5 := 0, 6 := 0, 7 := 0, 8 := 0],
          status := STATUS_IRQ OR STATUS_STATUS_OUT_FULL,
          irq_status := word_of_int (cmd_dev s OR IRQ_CMD_COMPLETE_FAILURE),
          irq_in_progress := True\<rparr>, e))"

definition defective_block :: "esdi_t \<times> env \<Rightarrow> esdi_t \<times> env" where
  "defective_block = (\<lambda>(s, e).
     set_irq
       (s\<lparr>status_len := 9,
          status_data := (status_data s)
            [0 := word_of_int (command s OR STATUS_LEN 9 OR cmd_dev s),
             1 := 0x0e01, 2 := 0x0009, 3 := 0, 4 := 0, 5 := 0, 6 := 0, 7 := 0, 8 := 0],
          status := STATUS_IRQ OR STATUS_STATUS_OUT_FULL,
          irq_status := word_of_int (cmd_dev s OR IRQ_CMD_COMPLETE_FAILURE),
          irq_in_progress := True\<rparr>, e))"

definition complete_command_status :: "esdi_t \<Rightarrow> esdi_t" where
  "complete_command_status s =
     s\<lparr>status_len := 7,
       status_data := (status_data s)
         [0 := (if cmd_dev s = ATTN_DEVICE_0
                then word_of_int (command s OR STATUS_LEN 7 OR STATUS_DEVICE 0)
                else word_of_int (command s OR STATUS_LEN 7 OR STATUS_DEVICE 1)),
          1 := 0x0000, 2 := 0x1900, 3 := 0,
          4 := ucast ((rba s - 1) AND 0xffff),
          5 := ucast (drop_bit 8 (rba s - 1)),
          6 := 0]\<rparr>"

subsection \<open>Register handlers\<close>

definition esdi_read :: "u16 \<Rightarrow> esdi_t \<Rightarrow> u8 \<times> esdi_t" where
  "esdi_read port s =
     (if port AND 7 = 2 then (status s, s)
      else if port AND 7 = 3 then
        (irq_status s, s\<lparr>status := status s AND NOT STATUS_IRQ\<rparr>)
      else (0x00, s))"

definition esdi_write :: "u16 \<Rightarrow> u8 \<Rightarrow> esdi_t \<times> env \<Rightarrow> error + esdi_t \<times> env" where
  "esdi_write port val = (\<lambda>(s, e).
     if port AND 7 = 2 then
       (let (s1, e1) =
              (if basic_ctrl s AND CTRL_RESET \<noteq> 0 \<and> val AND CTRL_RESET = 0 then
                 (s\<lparr>in_reset := True, status := STATUS_BUSY\<rparr>,
                  esdi_mca_set_callback (ESDI_TIME * 50) e)
               else if basic_ctrl s AND CTRL_RESET = 0 \<and> val AND CTRL_RESET \<noteq> 0 then
                 (s\<lparr>status := STATUS_BUSY\<rparr>, esdi_mca_set_callback 0 e)
               else (s, e));
            old = basic_ctrl s1;
            s2 = s1\<lparr>basic_ctrl := val\<rparr>
        in if val AND CTRL_IRQ_ENA \<noteq> 0 \<and> old AND CTRL_IRQ_ENA = 0
           then Inr (update_irq (s2, e1)) else Inr (s2, e1))
     else if port AND 7 = 3 then
       (if val AND ATTN_DEVICE_SEL = 0xe0 then
          (if val AND ATTN_REQ_MASK = ATTN_CMD_REQ then
             (if cmd_req_in_progress s then Inl Fatal_cmd_req_in_progress
              else Inr (s\<lparr>cmd_req_in_progress := True, cmd_dev := ATTN_HOST_ADAPTER,
                          status := status s OR STATUS_BUSY, cmd_pos := 0, status_pos := 0\<rparr>, e))
           else if val AND ATTN_REQ_MASK = ATTN_EOI then
             Inr (clear_irq (s\<lparr>irq_in_progress := False,
                               status := status s AND NOT STATUS_IRQ\<rparr>, e))
           else if val AND ATTN_REQ_MASK = ATTN_RESET then
             Inr (s\<lparr>in_reset := True, status := STATUS_BUSY\<rparr>,
                  esdi_mca_set_callback (ESDI_TIME * 50) e)
           else Inl Fatal_bad_attention)
        else if val AND ATTN_DEVICE_SEL = 0x00 then
          (if val AND ATTN_REQ_MASK = ATTN_CMD_REQ then
             (if cmd_req_in_progress s then Inl Fatal_cmd_req_in_progress
              else Inr (s\<lparr>cmd_req_in_progress := True, cmd_dev := ATTN_DEVICE_0,
                          status := status s OR STATUS_BUSY, cmd_pos := 0, status_pos := 0\<rparr>, e))
           else if val AND ATTN_REQ_MASK = ATTN_EOI then
             Inr (clear_irq (s\<lparr>irq_in_progress := False,
                               status := status s AND NOT STATUS_IRQ\<rparr>, e))
           else Inl Fatal_bad_attention)
        else if val AND ATTN_DEVICE_SEL = 0x20 then
          (if val AND ATTN_REQ_MASK = ATTN_CMD_REQ then
             (if cmd_req_in_progress s then Inl Fatal_cmd_req_in_progress
              else Inr (s\<lparr>cmd_req_in_progress := True, cmd_dev := ATTN_DEVICE_1,
                          status := status s OR STATUS_BUSY, cmd_pos := 0, status_pos := 0\<rparr>, e))
           else if val AND ATTN_REQ_MASK = ATTN_EOI then
             Inr (clear_irq (s\<lparr>irq_in_progress := False,
                               status := status s AND NOT STATUS_IRQ\<rparr>, e))
           else Inl Fatal_bad_attention)
        else Inl Fatal_unknown_device)
     else Inl Fatal_bad_port)"

text \<open>
  \<^verbatim>\<open>esdi_readw\<close>. The read of \<^verbatim>\<open>status_data[status_pos]\<close> is guarded in C only by
  \<^verbatim>\<open>status_pos < status_len\<close>; an index beyond the array is undefined there and an error
  here.
\<close>

definition esdi_readw :: "u16 \<Rightarrow> esdi_t \<Rightarrow> error + u16 \<times> esdi_t" where
  "esdi_readw port s =
     (if port AND 7 = 0 then
        (if status_pos s \<ge> status_len s then Inr (0, s)
         else if status_pos s \<ge> length (status_data s) then Inl Index_out_of_bounds
         else
           (let ret = status_data s ! status_pos s;
                s1 = s\<lparr>status_pos := status_pos s + 1\<rparr>
            in if status_pos s1 \<ge> status_len s1
               then Inr (ret, s1\<lparr>status := status s1 AND NOT STATUS_STATUS_OUT_FULL,
                                 status_len := 0, status_pos := 0\<rparr>)
               else Inr (ret, s1)))
      else Inl Fatal_bad_port)"

definition esdi_writew :: "u16 \<Rightarrow> u16 \<Rightarrow> esdi_t \<times> env \<Rightarrow> error + esdi_t \<times> env" where
  "esdi_writew port val = (\<lambda>(s, e).
     if port AND 7 = 0 then
       (if cmd_pos s \<ge> 4 then Inl Fatal_cir_pos
        else
          (let s1 = s\<lparr>cmd_data := (cmd_data s)[cmd_pos s := val], cmd_pos := cmd_pos s + 1\<rparr>
           in if (cmd_data s1 ! 0 AND CMD_SIZE_4 \<noteq> 0 \<and> cmd_pos s1 = 4) \<or>
                 (cmd_data s1 ! 0 AND CMD_SIZE_4 = 0 \<and> cmd_pos s1 = 2)
              then
                (let s2 = s1\<lparr>cmd_pos := 0, cmd_req_in_progress := False, cmd_state := 0\<rparr>
                 in if uint (cmd_data s2 ! 0 AND CMD_DEVICE_SEL) \<noteq> cmd_dev s2
                    then Inl Fatal_device_mismatch
                    else Inr (s2\<lparr>command := uint (cmd_data s2 ! 0 AND CMD_MASK),
                                 status := STATUS_BUSY, data_pos := 0\<rparr>,
                              esdi_mca_set_callback ESDI_TIME e))
              else Inr (s1, e)))
     else Inl Fatal_bad_port)"

subsection \<open>The transfer loops of the executor\<close>

text \<open>
  The inner loop of the read paths,
  \<^verbatim>\<open>while (data_pos < 256) { val = dma_channel_write(dma, data[data_pos]);
  if (val == DMA_NODATA) return; data_pos++; }\<close>.
  The result says whether the loop ran to its end (\<open>True\<close>) or returned on
  \<^verbatim>\<open>DMA_NODATA\<close> (\<open>False\<close>), with the cursor and the channel afterwards.
\<close>

function xfer_to_dma :: "u16 list \<Rightarrow> nat \<Rightarrow> env \<Rightarrow> bool \<times> nat \<times> env" where
  "xfer_to_dma buf pos e =
     (if pos < 256 then
        (case dma_channel_write (buf ! pos) e of
           (val, e') \<Rightarrow>
             if val = DMA_NODATA then (False, pos, e')
             else xfer_to_dma buf (pos + 1) e')
      else (True, pos, e))"
  by pat_completeness auto
termination
  by (relation "measure (\<lambda>(buf, pos, e). 256 - pos)") auto

declare xfer_to_dma.simps [simp del]

text \<open>
  The inner loop of the write paths,
  \<^verbatim>\<open>while (data_pos < 256) { val = dma_channel_read(dma);
  if (val == DMA_NODATA) return; data[data_pos++] = val & 0xffff; }\<close>.
\<close>

function xfer_from_dma :: "u16 list \<Rightarrow> nat \<Rightarrow> env \<Rightarrow> bool \<times> u16 list \<times> nat \<times> env" where
  "xfer_from_dma buf pos e =
     (if pos < 256 then
        (case dma_channel_read e of
           (val, e') \<Rightarrow>
             if val = DMA_NODATA then (False, buf, pos, e')
             else xfer_from_dma (buf[pos := word_of_int val]) (pos + 1) e')
      else (True, buf, pos, e))"
  by pat_completeness auto
termination
  by (relation "measure (\<lambda>(buf, pos, e). 256 - pos)") auto

declare xfer_from_dma.simps [simp del]

text \<open>
  How a sector loop of phase 1 ends: all sectors done (with the accumulated
  \<^verbatim>\<open>cmd_time\<close>), returned on \<^verbatim>\<open>DMA_NODATA\<close> (with the \<^verbatim>\<open>cmd_time\<close> accumulated in this
  call), image I/O failure, the \<^verbatim>\<open>fatal()\<close> of the loop, or an index beyond
  \<^verbatim>\<open>sector_buffer\<close>.
\<close>

datatype xfer =
    Xfer_done esdi_t env real
  | Xfer_nodata esdi_t env real
  | Xfer_defective esdi_t env
  | Xfer_fatal
  | Xfer_bounds

text \<open>The block \<^verbatim>\<open>if (!dev->data_pos) { ... }\<close> of the \<^verbatim>\<open>CMD_READ\<close> loop.\<close>

definition load_sector ::
  "hdd_model \<Rightarrow> drive_t \<Rightarrow> esdi_t \<Rightarrow> env \<Rightarrow> real \<Rightarrow> xfer + esdi_t \<times> env \<times> real" where
  "load_sector hw drive s e t =
     (if rba s \<ge> word_of_int (sectors drive) then Inl Xfer_fatal
      else
        (case hdd_image_read hw (hdd_num drive) (rba s) e of
           (None, e1) \<Rightarrow> Inl (Xfer_defective s e1)
         | (Some buf, e1) \<Rightarrow>
             Inr (s\<lparr>data := buf\<rparr>, e1,
                  t + timing_read hw (hdd_num drive) (rba s) 1 + esdi_mca_get_xfer_time 1)))"

function read_sectors :: "hdd_model \<Rightarrow> drive_t \<Rightarrow> esdi_t \<Rightarrow> env \<Rightarrow> real \<Rightarrow> xfer" where
  "read_sectors hw drive s e t =
     (if sector_pos s < sector_count s then
        (case (if data_pos s = 0 then load_sector hw drive s e t else Inr (s, e, t)) of
           Inl x \<Rightarrow> x
         | Inr (s1, e1, t1) \<Rightarrow>
             (case xfer_to_dma (data s1) (data_pos s1) e1 of
                (False, pos, e2) \<Rightarrow> Xfer_nodata (s1\<lparr>data_pos := pos\<rparr>) e2 t1
              | (True, pos, e2) \<Rightarrow>
                  read_sectors hw drive
                    (s1\<lparr>data_pos := 0, sector_pos := sector_pos s1 + 1, rba := rba s1 + 1\<rparr>)
                    e2 t1))
      else Xfer_done s e t)"
  by pat_completeness auto
termination
  by (relation "measure (\<lambda>(hw, drive, s, e, t). sector_count s - sector_pos s)")
     (auto simp: load_sector_def split: if_splits prod.splits option.splits)

declare read_sectors.simps [simp del]

function write_sectors :: "hdd_model \<Rightarrow> drive_t \<Rightarrow> esdi_t \<Rightarrow> env \<Rightarrow> real \<Rightarrow> xfer" where
  "write_sectors hw drive s e t =
     (if sector_pos s < sector_count s then
        (case xfer_from_dma (data s) (data_pos s) e of
           (False, buf, pos, e1) \<Rightarrow> Xfer_nodata (s\<lparr>data := buf, data_pos := pos\<rparr>) e1 t
         | (True, buf, pos, e1) \<Rightarrow>
             (if rba s \<ge> word_of_int (sectors drive) then Xfer_fatal
              else
                (case hdd_image_write hw (hdd_num drive) (rba s) buf e1 of
                   (False, e2) \<Rightarrow> Xfer_defective (s\<lparr>data := buf, data_pos := pos\<rparr>) e2
                 | (True, e2) \<Rightarrow>
                     write_sectors hw drive
                       (s\<lparr>data := buf, rba := rba s + 1, sector_pos := sector_pos s + 1,
                          data_pos := 0\<rparr>)
                       e2
                       (t + timing_write hw (hdd_num drive) (rba s) 1
                          + esdi_mca_get_xfer_time 1))))
      else Xfer_done s e t)"
  by pat_completeness auto
termination
  by (relation "measure (\<lambda>(hw, drive, s, e, t). sector_count s - sector_pos s)") auto

declare write_sectors.simps [simp del]

text \<open>
  The loop of command \<^verbatim>\<open>0x10\<close> (write sector buffer). \<^verbatim>\<open>sector_buffer[sector_pos]\<close>
  beyond the 256 rows is undefined in C and \<open>Xfer_bounds\<close> here.
\<close>

function write_buffer_sectors :: "esdi_t \<Rightarrow> env \<Rightarrow> xfer" where
  "write_buffer_sectors s e =
     (if sector_pos s < sector_count s then
        (case xfer_from_dma (data s) (data_pos s) e of
           (False, buf, pos, e1) \<Rightarrow> Xfer_nodata (s\<lparr>data := buf, data_pos := pos\<rparr>) e1 0
         | (True, buf, pos, e1) \<Rightarrow>
             (if sector_pos s \<ge> length (sector_buffer s) then Xfer_bounds
              else
                write_buffer_sectors
                  (s\<lparr>data := buf,
                     sector_buffer := (sector_buffer s)[sector_pos s := buf],
                     sector_pos := sector_pos s + 1, data_pos := 0\<rparr>)
                  e1))
      else Xfer_done s e 0)"
  by pat_completeness auto
termination
  by (relation "measure (\<lambda>(s, e). sector_count s - sector_pos s)") auto

declare write_buffer_sectors.simps [simp del]

text \<open>
  The loop of command \<^verbatim>\<open>0x11\<close> (read sector buffer): the row is copied and
  \<^verbatim>\<open>sector_pos\<close> incremented when \<^verbatim>\<open>data_pos\<close> is 0, before the words are sent.
\<close>

function read_buffer_sectors :: "esdi_t \<Rightarrow> env \<Rightarrow> xfer" where
  "read_buffer_sectors s e =
     (if sector_pos s < sector_count s then
        (if data_pos s = 0 \<and> sector_pos s \<ge> length (sector_buffer s) then Xfer_bounds
         else
           (let s1 = (if data_pos s = 0
                      then s\<lparr>data := sector_buffer s ! sector_pos s,
                             sector_pos := sector_pos s + 1\<rparr>
                      else s)
            in case xfer_to_dma (data s1) (data_pos s1) e of
                 (False, pos, e1) \<Rightarrow> Xfer_nodata (s1\<lparr>data_pos := pos\<rparr>) e1 0
               | (True, pos, e1) \<Rightarrow> read_buffer_sectors (s1\<lparr>data_pos := 0\<rparr>) e1))
      else Xfer_done s e 0)"
  by pat_completeness auto
termination
  by (relation "measure (\<lambda>(s, e). 2 * (sector_count s - sector_pos s)
                                   + (if data_pos s = 0 then 0 else 1))")
     (auto split: if_splits)

declare read_buffer_sectors.simps [simp del]

subsection \<open>The command executor \<^verbatim>\<open>esdi_callback\<close>\<close>

text \<open>
  \<^verbatim>\<open>(dev->cmd_data[2] | (dev->cmd_data[3] << 16)) & 0x0fffffff\<close>: the shift is computed
  in a 32-bit \<^verbatim>\<open>int\<close>; the masked value assigned to the \<^verbatim>\<open>uint32_t rba\<close> is the same
  as with unsigned operands.
\<close>

definition decode_rba :: "esdi_t \<Rightarrow> u32" where
  "decode_rba s =
     (ucast (cmd_data s ! 2) OR push_bit 16 (ucast (cmd_data s ! 3))) AND 0x0fffffff"

text \<open>The test of the macro \<^verbatim>\<open>ESDI_DRIVE_ONLY\<close> and the drive it selects.\<close>

definition not_a_drive :: "esdi_t \<Rightarrow> bool" where
  "not_a_drive s = (cmd_dev s \<noteq> ATTN_DEVICE_0 \<and> cmd_dev s \<noteq> ATTN_DEVICE_1)"

definition selected_drive :: "esdi_t \<Rightarrow> drive_t" where
  "selected_drive s = (if cmd_dev s = ATTN_DEVICE_0 then drives s ! 0 else drives s ! 1)"

text \<open>
  \<^verbatim>\<open>(dev->rba + dev->sector_count) > hdd_image_get_last_sector(drive->hdd_num)\<close>, an
  unsigned 32-bit comparison.
\<close>

definition rba_beyond_last :: "hdd_model \<Rightarrow> drive_t \<Rightarrow> esdi_t \<Rightarrow> bool" where
  "rba_beyond_last hw drive s =
     (rba s + of_nat (sector_count s) > last_sector hw (hdd_num drive))"

text \<open>
  The four statements \<^verbatim>\<open>dev->status = st; dev->irq_status = irq;
  dev->irq_in_progress = 1; set_irq(dev);\<close> that end most phases.
\<close>

definition latch_irq :: "u8 \<Rightarrow> int \<Rightarrow> esdi_t \<times> env \<Rightarrow> esdi_t \<times> env" where
  "latch_irq st irq = (\<lambda>(s, e).
     set_irq (s\<lparr>status := st, irq_status := word_of_int irq, irq_in_progress := True\<rparr>, e))"

text \<open>Phase 0 of the DMA transfers, after the range check.\<close>

definition start_transfer :: "int \<Rightarrow> esdi_t \<times> env \<Rightarrow> esdi_t \<times> env" where
  "start_transfer irq = (\<lambda>(s, e).
     (case latch_irq (STATUS_IRQ OR STATUS_CMD_IN_PROGRESS OR STATUS_TRANSFER_REQ) irq (s, e) of
        (s1, e1) \<Rightarrow> (s1\<lparr>cmd_state := 1, data_pos := 0\<rparr>, esdi_mca_set_callback ESDI_TIME e1)))"

text \<open>The completion phase of the drive commands.\<close>

definition finish_command :: "esdi_t \<times> env \<Rightarrow> esdi_t \<times> env" where
  "finish_command = (\<lambda>(s, e).
     latch_irq (STATUS_IRQ OR STATUS_STATUS_OUT_FULL) (cmd_dev s OR IRQ_CMD_COMPLETE_SUCCESS)
       (complete_command_status s, e))"

text \<open>\<^verbatim>\<open>case CMD_READ: case 0x15:\<close>\<close>

definition cb_read :: "hdd_model \<Rightarrow> esdi_t \<times> env \<Rightarrow> error + esdi_t \<times> env" where
  "cb_read hw = (\<lambda>(s, e).
     if not_a_drive s then Inr (cmd_unsupported (s, e))
     else
       (let drive = selected_drive s in
        if \<not> present drive then Inr (device_not_present (s, e))
        else if cmd_state s = 0 then
          (let s1 = (if command s = CMD_READ then s\<lparr>rba := decode_rba s\<rparr> else s);
               s2 = s1\<lparr>sector_pos := 0, sector_count := unat (cmd_data s1 ! 1)\<rparr>
           in if rba_beyond_last hw drive s2 then Inr (rba_out_of_range (s2, e))
              else Inr (start_transfer (cmd_dev s2 OR IRQ_DATA_TRANSFER_READY) (s2, e)))
        else if cmd_state s = 1 then
          (if basic_ctrl s AND CTRL_DMA_ENA = 0 then Inr (s, esdi_mca_set_callback ESDI_TIME e)
           else
             (case read_sectors hw drive s e 0 of
                Xfer_done s' e' t \<Rightarrow>
                  Inr (s'\<lparr>status := STATUS_CMD_IN_PROGRESS, cmd_state := 2\<rparr>,
                       esdi_mca_set_callback t e')
              | Xfer_nodata s' e' t \<Rightarrow> Inr (s', esdi_mca_set_callback (ESDI_TIME + t) e')
              | Xfer_defective s' e' \<Rightarrow> Inr (defective_block (s', e'))
              | Xfer_fatal \<Rightarrow> Inl Fatal_read_past_end
              | Xfer_bounds \<Rightarrow> Inl Index_out_of_bounds))
        else if cmd_state s = 2 then Inr (finish_command (s, e))
        else Inr (s, e)))"

text \<open>\<^verbatim>\<open>case CMD_WRITE: case CMD_WRITE_VERIFY:\<close>\<close>

definition cb_write :: "hdd_model \<Rightarrow> esdi_t \<times> env \<Rightarrow> error + esdi_t \<times> env" where
  "cb_write hw = (\<lambda>(s, e).
     if not_a_drive s then Inr (cmd_unsupported (s, e))
     else
       (let drive = selected_drive s in
        if \<not> present drive then Inr (device_not_present (s, e))
        else if cmd_state s = 0 then
          (let s2 = s\<lparr>rba := decode_rba s, sector_pos := 0,
                      sector_count := unat (cmd_data s ! 1)\<rparr>
           in if rba_beyond_last hw drive s2 then Inr (rba_out_of_range (s2, e))
              else Inr (start_transfer (cmd_dev s2 OR IRQ_DATA_TRANSFER_READY) (s2, e)))
        else if cmd_state s = 1 then
          (if basic_ctrl s AND CTRL_DMA_ENA = 0 then Inr (s, esdi_mca_set_callback ESDI_TIME e)
           else
             (case write_sectors hw drive s e 0 of
                Xfer_done s' e' t \<Rightarrow>
                  Inr (s'\<lparr>status := STATUS_CMD_IN_PROGRESS, cmd_state := 2\<rparr>,
                       esdi_mca_set_callback t e')
              | Xfer_nodata s' e' t \<Rightarrow> Inr (s', esdi_mca_set_callback (ESDI_TIME + t) e')
              | Xfer_defective s' e' \<Rightarrow> Inr (defective_block (s', e'))
              | Xfer_fatal \<Rightarrow> Inl Fatal_write_past_end
              | Xfer_bounds \<Rightarrow> Inl Index_out_of_bounds))
        else if cmd_state s = 2 then Inr (finish_command (s, e))
        else Inr (s, e)))"

text \<open>\<^verbatim>\<open>case CMD_READ_VERIFY:\<close>\<close>

definition cb_read_verify :: "hdd_model \<Rightarrow> esdi_t \<times> env \<Rightarrow> error + esdi_t \<times> env" where
  "cb_read_verify hw = (\<lambda>(s, e).
     if not_a_drive s then Inr (cmd_unsupported (s, e))
     else
       (let drive = selected_drive s in
        if \<not> present drive then Inr (device_not_present (s, e))
        else if cmd_state s = 0 then
          (let s2 = s\<lparr>rba := decode_rba s, sector_count := unat (cmd_data s ! 1)\<rparr>
           in if rba_beyond_last hw drive s2 then Inr (rba_out_of_range (s2, e))
              else
                Inr (s2\<lparr>cmd_state := 1\<rparr>,
                     esdi_mca_set_callback
                       (ESDI_TIME + timing_read hw (hdd_num drive) (rba s2) (sector_count s2)) e))
        else if cmd_state s = 1 then Inr (finish_command (s, e))
        else Inr (s, e)))"

text \<open>\<^verbatim>\<open>case CMD_SEEK:\<close> the range check stands before the \<^verbatim>\<open>switch\<close> on the phase.\<close>

definition cb_seek :: "hdd_model \<Rightarrow> esdi_t \<times> env \<Rightarrow> error + esdi_t \<times> env" where
  "cb_seek hw = (\<lambda>(s, e).
     if not_a_drive s then Inr (cmd_unsupported (s, e))
     else
       (let drive = selected_drive s in
        if \<not> present drive then Inr (device_not_present (s, e))
        else if rba_beyond_last hw drive s then Inr (rba_out_of_range (s, e))
        else if cmd_state s = 0 then
          (let s1 = s\<lparr>rba := decode_rba s\<rparr>
           in Inr (s1\<lparr>cmd_state := 1\<rparr>,
                   esdi_mca_set_callback (ESDI_TIME + seek_time hw (hdd_num drive) (rba s1)) e))
        else if cmd_state s = 1 then Inr (finish_command (s, e))
        else Inr (s, e)))"

text \<open>\<^verbatim>\<open>case CMD_PARK_HEADS:\<close>\<close>

definition cb_park_heads :: "hdd_model \<Rightarrow> esdi_t \<times> env \<Rightarrow> error + esdi_t \<times> env" where
  "cb_park_heads hw = (\<lambda>(s, e).
     if not_a_drive s then Inr (cmd_unsupported (s, e))
     else
       (let drive = selected_drive s in
        if \<not> present drive then Inr (device_not_present (s, e))
        else if cmd_state s = 0 then
          (let s1 = s\<lparr>rba := 0\<rparr>
           in Inr (s1\<lparr>cmd_state := 1\<rparr>,
                   esdi_mca_set_callback (ESDI_TIME + seek_time hw (hdd_num drive) (rba s1)) e))
        else if cmd_state s = 1 then Inr (finish_command (s, e))
        else Inr (s, e)))"

text \<open>\<^verbatim>\<open>case CMD_GET_DEV_STATUS:\<close>\<close>

definition cb_get_dev_status :: "esdi_t \<times> env \<Rightarrow> error + esdi_t \<times> env" where
  "cb_get_dev_status = (\<lambda>(s, e).
     if not_a_drive s then Inr (cmd_unsupported (s, e))
     else
       (let drive = selected_drive s in
        if \<not> present drive then Inr (device_not_present (s, e))
        else if status s AND STATUS_IRQ \<noteq> 0 \<or> irq_in_progress s then Inl Fatal_irq_in_progress
        else
          Inr (latch_irq (STATUS_IRQ OR STATUS_STATUS_OUT_FULL)
                 (cmd_dev s OR IRQ_CMD_COMPLETE_SUCCESS)
                 (s\<lparr>status_len := 9,
                    status_data := (status_data s)
                      [0 := word_of_int (CMD_GET_DEV_STATUS OR STATUS_LEN 9
                                          OR STATUS_DEVICE_HOST_ADAPTER),
                       1 := 0x0000, 2 := 0x1900, 3 := 0, 4 := 0, 5 := 0, 6 := 0, 7 := 0,
                       8 := 0]\<rparr>, e))))"

text \<open>\<^verbatim>\<open>case CMD_GET_DEV_CONFIG:\<close>\<close>

definition cb_get_dev_config :: "esdi_t \<times> env \<Rightarrow> error + esdi_t \<times> env" where
  "cb_get_dev_config = (\<lambda>(s, e).
     if cmd_dev s = ATTN_HOST_ADAPTER then
       (if status s AND STATUS_IRQ \<noteq> 0 \<or> irq_in_progress s then Inl Fatal_irq_in_progress
        else
          Inr (latch_irq (STATUS_IRQ OR STATUS_STATUS_OUT_FULL)
                 (cmd_dev s OR IRQ_CMD_COMPLETE_SUCCESS)
                 (s\<lparr>status_len := 6,
                    status_data := (status_data s)
                      [0 := word_of_int (CMD_GET_DEV_CONFIG OR STATUS_LEN 6
                                          OR STATUS_DEVICE_HOST_ADAPTER),
                       1 := 0, 2 := 0, 3 := 0x3200, 4 := 0, 5 := 0]\<rparr>, e)))
     else if not_a_drive s then Inr (cmd_unsupported (s, e))
     else
       (let drive = selected_drive s in
        if \<not> present drive then Inr (device_not_present (s, e))
        else if status s AND STATUS_IRQ \<noteq> 0 \<or> irq_in_progress s then Inl Fatal_irq_in_progress
        else
          Inr (latch_irq (STATUS_IRQ OR STATUS_STATUS_OUT_FULL)
                 (cmd_dev s OR IRQ_CMD_COMPLETE_SUCCESS)
                 (s\<lparr>status_len := 6,
                    status_data := (status_data s)
                      [0 := word_of_int (CMD_GET_DEV_CONFIG OR STATUS_LEN 6
                                          OR STATUS_DEVICE_HOST_ADAPTER),
                       1 := 0x10,
                       2 := word_of_int (sectors drive AND 0xffff),
                       3 := word_of_int (drop_bit 16 (sectors drive)),
                       4 := word_of_int (tracks drive),
                       5 := word_of_int (hpc drive OR push_bit 16 (spt drive))]\<rparr>, e))))"

text \<open>\<^verbatim>\<open>case CMD_GET_POS_INFO:\<close>\<close>

definition cb_get_pos_info :: "esdi_t \<times> env \<Rightarrow> error + esdi_t \<times> env" where
  "cb_get_pos_info = (\<lambda>(s, e).
     if cmd_dev s \<noteq> ATTN_HOST_ADAPTER then Inr (cmd_unsupported (s, e))
     else if status s AND STATUS_IRQ \<noteq> 0 \<or> irq_in_progress s then Inl Fatal_irq_in_progress
     else
       Inr (latch_irq (STATUS_IRQ OR STATUS_STATUS_OUT_FULL)
              (IRQ_HOST_ADAPTER OR IRQ_CMD_COMPLETE_SUCCESS)
              (s\<lparr>status_len := 5,
                 status_data := (status_data s)
                   [0 := word_of_int (CMD_GET_POS_INFO OR STATUS_LEN 5
                                       OR STATUS_DEVICE_HOST_ADAPTER),
                    1 := ucast (pos_regs s ! 1) OR push_bit 8 (ucast (pos_regs s ! 0)),
                    2 := ucast (pos_regs s ! 3) OR push_bit 8 (ucast (pos_regs s ! 2)),
                    3 := 0xff, 4 := 0xff]\<rparr>, e)))"

text \<open>\<^verbatim>\<open>case 0x10:\<close> (write sector buffer)\<close>

definition cb_write_buffer :: "esdi_t \<times> env \<Rightarrow> error + esdi_t \<times> env" where
  "cb_write_buffer = (\<lambda>(s, e).
     if cmd_dev s \<noteq> ATTN_HOST_ADAPTER then Inr (cmd_unsupported (s, e))
     else if cmd_state s = 0 then
       (let s2 = s\<lparr>sector_pos := 0, sector_count := unat (cmd_data s ! 1)\<rparr>
        in if sector_count s2 > 256 then Inl Fatal_sector_buffer_count
           else Inr (start_transfer (IRQ_HOST_ADAPTER OR IRQ_DATA_TRANSFER_READY) (s2, e)))
     else if cmd_state s = 1 then
       (if basic_ctrl s AND CTRL_DMA_ENA = 0 then Inr (s, esdi_mca_set_callback ESDI_TIME e)
        else
          (case write_buffer_sectors s e of
             Xfer_done s' e' t \<Rightarrow>
               Inr (s'\<lparr>status := STATUS_CMD_IN_PROGRESS, cmd_state := 2\<rparr>,
                    esdi_mca_set_callback ESDI_TIME e')
           | Xfer_nodata s' e' t \<Rightarrow> Inr (s', esdi_mca_set_callback ESDI_TIME e')
           | Xfer_defective s' e' \<Rightarrow> Inr (defective_block (s', e'))
           | Xfer_fatal \<Rightarrow> Inl Fatal_write_past_end
           | Xfer_bounds \<Rightarrow> Inl Index_out_of_bounds))
     else if cmd_state s = 2 then
       Inr (latch_irq STATUS_IRQ (IRQ_HOST_ADAPTER OR IRQ_CMD_COMPLETE_SUCCESS) (s, e))
     else Inr (s, e))"

text \<open>\<^verbatim>\<open>case 0x11:\<close> (read sector buffer)\<close>

definition cb_read_buffer :: "esdi_t \<times> env \<Rightarrow> error + esdi_t \<times> env" where
  "cb_read_buffer = (\<lambda>(s, e).
     if cmd_dev s \<noteq> ATTN_HOST_ADAPTER then Inr (cmd_unsupported (s, e))
     else if cmd_state s = 0 then
       (let s2 = s\<lparr>sector_pos := 0, sector_count := unat (cmd_data s ! 1)\<rparr>
        in if sector_count s2 > 256 then Inl Fatal_sector_buffer_count
           else Inr (start_transfer (IRQ_HOST_ADAPTER OR IRQ_DATA_TRANSFER_READY) (s2, e)))
     else if cmd_state s = 1 then
       (if basic_ctrl s AND CTRL_DMA_ENA = 0 then Inr (s, esdi_mca_set_callback ESDI_TIME e)
        else
          (case read_buffer_sectors s e of
             Xfer_done s' e' t \<Rightarrow>
               Inr (s'\<lparr>status := STATUS_CMD_IN_PROGRESS, cmd_state := 2\<rparr>,
                    esdi_mca_set_callback ESDI_TIME e')
           | Xfer_nodata s' e' t \<Rightarrow> Inr (s', esdi_mca_set_callback ESDI_TIME e')
           | Xfer_defective s' e' \<Rightarrow> Inr (defective_block (s', e'))
           | Xfer_fatal \<Rightarrow> Inl Fatal_read_past_end
           | Xfer_bounds \<Rightarrow> Inl Index_out_of_bounds))
     else if cmd_state s = 2 then
       Inr (latch_irq STATUS_IRQ (IRQ_HOST_ADAPTER OR IRQ_CMD_COMPLETE_SUCCESS) (s, e))
     else Inr (s, e))"

text \<open>\<^verbatim>\<open>case 0x12:\<close>\<close>

definition cb_0x12 :: "esdi_t \<times> env \<Rightarrow> error + esdi_t \<times> env" where
  "cb_0x12 = (\<lambda>(s, e).
     if cmd_dev s \<noteq> ATTN_HOST_ADAPTER then Inr (cmd_unsupported (s, e))
     else if status s AND STATUS_IRQ \<noteq> 0 \<or> irq_in_progress s then Inl Fatal_irq_in_progress
     else
       Inr (latch_irq (STATUS_IRQ OR STATUS_STATUS_OUT_FULL)
              (IRQ_HOST_ADAPTER OR IRQ_CMD_COMPLETE_SUCCESS)
              (s\<lparr>status_len := 2,
                 status_data := (status_data s)
                   [0 := word_of_int (0x12 OR STATUS_LEN 5 OR STATUS_DEVICE_HOST_ADAPTER),
                    1 := 0]\<rparr>, e)))"

text \<open>\<^verbatim>\<open>case CMD_FORMAT_UNIT: case CMD_FORMAT_PREPARE:\<close>\<close>

definition cb_format :: "hdd_model \<Rightarrow> esdi_t \<times> env \<Rightarrow> error + esdi_t \<times> env" where
  "cb_format hw = (\<lambda>(s, e).
     if not_a_drive s then Inr (cmd_unsupported (s, e))
     else
       (let drive = selected_drive s in
        if \<not> present drive then Inr (device_not_present (s, e))
        else if cmd_state s = 0 then
          (let s1 = s\<lparr>rba := last_sector hw (hdd_num drive)\<rparr>;
               s2 = (if command s1 = CMD_FORMAT_UNIT
                     then s1\<lparr>sector_count := unat (cmd_data s1 ! 1)\<rparr>
                     else s1\<lparr>sector_count := 0\<rparr>)
           in case latch_irq (STATUS_IRQ OR STATUS_CMD_IN_PROGRESS OR STATUS_TRANSFER_REQ)
                     (cmd_dev s2 OR IRQ_DATA_TRANSFER_READY) (s2, e) of
                (s3, e3) \<Rightarrow> Inr (s3\<lparr>cmd_state := 1\<rparr>, esdi_mca_set_callback ESDI_TIME e3))
        else if cmd_state s = 1 then
          (if basic_ctrl s AND CTRL_DMA_ENA = 0 then Inr (s, esdi_mca_set_callback ESDI_TIME e)
           else
             (let e1 = (if command s = CMD_FORMAT_UNIT
                        then hdd_image_zero (hdd_num drive)
                               (last_sector hw (hdd_num drive) + 1) e
                        else e)
              in Inr (s\<lparr>status := STATUS_CMD_IN_PROGRESS, cmd_state := 2\<rparr>,
                      esdi_mca_set_callback ESDI_TIME e1)))
        else if cmd_state s = 2 then Inr (finish_command (s, e))
        else Inr (s, e)))"

text \<open>
  \<^verbatim>\<open>esdi_callback\<close>: the return from a reset first, then the \<^verbatim>\<open>switch\<close> on the
  command.
\<close>

definition esdi_callback :: "hdd_model \<Rightarrow> esdi_t \<times> env \<Rightarrow> error + esdi_t \<times> env" where
  "esdi_callback hw = (\<lambda>(s, e).
     if in_reset s then
       Inr (s\<lparr>in_reset := False,
              status := STATUS_IRQ OR STATUS_TRANSFER_REQ OR STATUS_STATUS_OUT_FULL,
              status_len := 1,
              status_data := (status_data s)[0 := word_of_int (STATUS_LEN 1 OR ATTN_HOST_ADAPTER)],
              irq_status := word_of_int (IRQ_HOST_ADAPTER OR IRQ_RESET_COMPLETE)\<rparr>, e)
     else if command s = CMD_READ \<or> command s = 0x15 then cb_read hw (s, e)
     else if command s = CMD_WRITE \<or> command s = CMD_WRITE_VERIFY then cb_write hw (s, e)
     else if command s = CMD_READ_VERIFY then cb_read_verify hw (s, e)
     else if command s = CMD_SEEK then cb_seek hw (s, e)
     else if command s = CMD_PARK_HEADS then cb_park_heads hw (s, e)
     else if command s = CMD_GET_DEV_STATUS then cb_get_dev_status (s, e)
     else if command s = CMD_GET_DEV_CONFIG then cb_get_dev_config (s, e)
     else if command s = CMD_GET_POS_INFO then cb_get_pos_info (s, e)
     else if command s = 0x10 then cb_write_buffer (s, e)
     else if command s = 0x11 then cb_read_buffer (s, e)
     else if command s = 0x12 then cb_0x12 (s, e)
     else if command s = CMD_FORMAT_UNIT \<or> command s = CMD_FORMAT_PREPARE then cb_format hw (s, e)
     else Inl Fatal_bad_command)"

text \<open>
  Modelled from the spec: the timer of section 5 holds one pending callback; when it
  fires it is no longer pending and \<^verbatim>\<open>esdi_callback\<close> runs.
\<close>

definition timer_fire :: "hdd_model \<Rightarrow> esdi_t \<times> env \<Rightarrow> error + esdi_t \<times> env" where
  "timer_fire hw = (\<lambda>(s, e). esdi_callback hw (s, e\<lparr>timer := None\<rparr>))"

text \<open>
  \<^verbatim>\<open>esdi_init\<close>: \<^verbatim>\<open>calloc\<close> zeroes the structure; then the interrupt status is marked
  unconfigured, the two drive descriptors are filled from the configured images (here
  the parameter \<open>ds\<close>), the MCA id is stored for the adapter or the integrated variant,
  and a reset is marked. (Its calls of the timer act on the environment only.)
\<close>

definition esdi_init :: "bool \<Rightarrow> drive_t list \<Rightarrow> esdi_t" where
  "esdi_init integrated ds =
     \<lparr>basic_ctrl = 0, status = STATUS_BUSY, irq_status = 0xff, irq_ena_disable = False,
      irq_in_progress = False, cmd_req_in_progress = False, cmd_pos = 0,
      cmd_data = [0, 0, 0, 0], cmd_dev = 0, status_pos = 0, status_len = 0,
      status_data = replicate 256 0, data_pos = 0, data = replicate 256 0,
      sector_buffer = replicate 256 (replicate 256 0), sector_pos = 0, sector_count = 0,
      command = 0, cmd_state = 0, in_reset = True, rba = 0, drives = ds,
      pos_regs = (if integrated then [0x9f, 0xdf, 0, 0, 0, 0, 0, 0]
                  else [0xff, 0xdd, 0, 0, 0, 0, 0, 0])\<rparr>"

subsection \<open>Runs of the adapter\<close>

text \<open>
  The guest's register accesses and the timer, as one step function; a value read by
  the guest is dropped, the state after the read is kept.
\<close>

datatype io =
    Io_read u16
  | Io_write u16 u8
  | Io_readw u16
  | Io_writew u16 u16
  | Io_callback

fun step :: "hdd_model \<Rightarrow> io \<Rightarrow> esdi_t \<times> env \<Rightarrow> error + esdi_t \<times> env" where
  "step hw (Io_read port) (s, e) = Inr (snd (esdi_read port s), e)"
| "step hw (Io_write port val) (s, e) = esdi_write port val (s, e)"
| "step hw (Io_readw port) (s, e) =
     (case esdi_readw port s of Inl err \<Rightarrow> Inl err | Inr (w, s') \<Rightarrow> Inr (s', e))"
| "step hw (Io_writew port val) (s, e) = esdi_writew port val (s, e)"
| "step hw Io_callback (s, e) = timer_fire hw (s, e)"

fun run :: "hdd_model \<Rightarrow> io list \<Rightarrow> esdi_t \<times> env \<Rightarrow> error + esdi_t \<times> env" where
  "run hw [] x = Inr x"
| "run hw (a # as) x = (case step hw a x of Inl err \<Rightarrow> Inl err | Inr y \<Rightarrow> run hw as y)"

text \<open>
  The adapter states that the register handlers and the callback can reach from
  \<^verbatim>\<open>esdi_init\<close>, whatever the environment does in between.
\<close>

inductive reachable :: "esdi_t \<Rightarrow> bool" where
  reachable_init: "reachable (esdi_init integrated ds)"
| reachable_step: "reachable s \<Longrightarrow> step hw a (s, e) = Inr (s', e') \<Longrightarrow> reachable s'"

text \<open>A concrete machine for the examples: one present drive of 1000 sectors.\<close>

definition drive_1000 :: drive_t where
  "drive_1000 = \<lparr>spt = 10, hpc = 4, tracks = 25, sectors = 1000, present = True, hdd_num = 0\<rparr>"

definition drive_absent :: drive_t where
  "drive_absent = \<lparr>spt = 0, hpc = 0, tracks = 0, sectors = 0, present = False, hdd_num = 0\<rparr>"

definition hw_1000 :: hdd_model where
  "hw_1000 = \<lparr>last_sector = (\<lambda>n. 1000), read_fails = (\<lambda>n a. False),
              write_fails = (\<lambda>n a. False), timing_read = (\<lambda>n a c. 100 * real c),
              timing_write = (\<lambda>n a c. 100 * real c), seek_time = (\<lambda>n a. 50)\<rparr>"

definition env_idle :: env where
  "env_idle = \<lparr>timer = None, irq_line = False, dma_rd = [], dma_wr = [], dma_out = [],
               disk = (\<lambda>n a. replicate 256 0), disk_log = []\<rparr>"

definition adapter_0 :: esdi_t where
  "adapter_0 = esdi_init False [drive_1000, drive_absent]"

subsection \<open>Vocabulary for the properties of the transfer loops\<close>

text \<open>
  The definitions below are not part of the source: they name what the theorems say
  about it. \<open>same_regs\<close>: two adapter states differ at most in the staging buffer, the
  cursors of the transfer and the sector buffer; \<open>same_lines\<close>: timer and interrupt line
  are as before; \<open>dma_ready\<close>: how many calls the channel answers before its first
  \<^verbatim>\<open>DMA_NODATA\<close>; \<open>fill\<close>: the staging buffer after storing the given results from a
  position on; \<open>read_time\<close> and \<open>write_time\<close>: the \<^verbatim>\<open>cmd_time\<close> that \<open>n\<close> sectors from
  address \<open>a\<close> add; \<open>first_pos\<close>: the first sector index that a phase-1 read callback
  loads from the image.
\<close>

definition same_regs :: "esdi_t \<Rightarrow> esdi_t \<Rightarrow> bool" where
  "same_regs s s' =
     (s' = s\<lparr>data := data s', data_pos := data_pos s', sector_pos := sector_pos s',
             rba := rba s', sector_buffer := sector_buffer s'\<rparr>)"

definition same_lines :: "env \<Rightarrow> env \<Rightarrow> bool" where
  "same_lines e e' = (timer e' = timer e \<and> irq_line e' = irq_line e)"

fun xfer_frame :: "esdi_t \<Rightarrow> env \<Rightarrow> xfer \<Rightarrow> bool" where
  "xfer_frame s e (Xfer_done s' e' t) = (same_regs s s' \<and> same_lines e e')"
| "xfer_frame s e (Xfer_nodata s' e' t) = (same_regs s s' \<and> same_lines e e')"
| "xfer_frame s e (Xfer_defective s' e') = (same_regs s s' \<and> same_lines e e')"
| "xfer_frame s e Xfer_fatal = True"
| "xfer_frame s e Xfer_bounds = True"

definition dma_ready :: "int list \<Rightarrow> nat" where
  "dma_ready rs = length (takeWhile (\<lambda>v. v \<noteq> DMA_NODATA) rs)"

fun fill :: "u16 list \<Rightarrow> nat \<Rightarrow> int list \<Rightarrow> u16 list" where
  "fill buf pos [] = buf"
| "fill buf pos (v # vs) = fill (buf[pos := word_of_int v]) (pos + 1) vs"

definition first_pos :: "esdi_t \<Rightarrow> nat" where
  "first_pos s = (if data_pos s = 0 then sector_pos s else sector_pos s + 1)"

definition sector_read_time :: "hdd_model \<Rightarrow> drive_t \<Rightarrow> u32 \<Rightarrow> real" where
  "sector_read_time hw d a = timing_read hw (hdd_num d) a 1 + esdi_mca_get_xfer_time 1"

definition read_time :: "hdd_model \<Rightarrow> drive_t \<Rightarrow> u32 \<Rightarrow> nat \<Rightarrow> real" where
  "read_time hw d a n = (\<Sum>i<n. sector_read_time hw d (a + of_nat i))"

fun read_post :: "hdd_model \<Rightarrow> drive_t \<Rightarrow> esdi_t \<Rightarrow> env \<Rightarrow> real \<Rightarrow> xfer \<Rightarrow> bool" where
  "read_post hw d s e t0 (Xfer_done s' e' t) =
     (same_regs s s' \<and> same_lines e e' \<and>
      sector_pos s' = max (sector_pos s) (sector_count s) \<and>
      data_pos s' = (if sector_pos s < sector_count s then 0 else data_pos s) \<and>
      rba s' = rba s + of_nat (sector_pos s' - sector_pos s) \<and>
      t = t0 + read_time hw d (rba s + of_nat (first_pos s - sector_pos s))
                 (sector_count s - first_pos s))"
| "read_post hw d s e t0 (Xfer_nodata s' e' t) =
     (same_regs s s' \<and> same_lines e e' \<and>
      sector_pos s \<le> sector_pos s' \<and> sector_pos s' < sector_count s \<and> data_pos s' < 256 \<and>
      rba s' = rba s + of_nat (sector_pos s' - sector_pos s) \<and>
      t = t0 + read_time hw d (rba s + of_nat (first_pos s - sector_pos s))
                 (sector_pos s' + 1 - first_pos s))"
| "read_post hw d s e t0 (Xfer_defective s' e') =
     (same_regs s s' \<and> same_lines e e' \<and>
      sector_pos s \<le> sector_pos s' \<and> sector_pos s' < sector_count s \<and> data_pos s' = 0 \<and>
      read_fails hw (hdd_num d) (rba s'))"
| "read_post hw d s e t0 Xfer_fatal = True"
| "read_post hw d s e t0 Xfer_bounds = True"

definition sector_write_time :: "hdd_model \<Rightarrow> drive_t \<Rightarrow> u32 \<Rightarrow> real" where
  "sector_write_time hw d a = timing_write hw (hdd_num d) a 1 + esdi_mca_get_xfer_time 1"

definition write_time :: "hdd_model \<Rightarrow> drive_t \<Rightarrow> u32 \<Rightarrow> nat \<Rightarrow> real" where
  "write_time hw d a n = (\<Sum>i<n. sector_write_time hw d (a + of_nat i))"

fun write_post :: "hdd_model \<Rightarrow> drive_t \<Rightarrow> esdi_t \<Rightarrow> env \<Rightarrow> real \<Rightarrow> xfer \<Rightarrow> bool" where
  "write_post hw d s e t0 (Xfer_done s' e' t) =
     (same_regs s s' \<and> same_lines e e' \<and>
      sector_pos s' = max (sector_pos s) (sector_count s) \<and>
      data_pos s' = (if sector_pos s < sector_count s then 0 else data_pos s) \<and>
      rba s' = rba s + of_nat (sector_pos s' - sector_pos s) \<and>
      t = t0 + write_time hw d (rba s) (sector_count s - sector_pos s))"
| "write_post hw d s e t0 (Xfer_nodata s' e' t) =
     (same_regs s s' \<and> same_lines e e' \<and>
      sector_pos s \<le> sector_pos s' \<and> sector_pos s' < sector_count s \<and> data_pos s' < 256 \<and>
      rba s' = rba s + of_nat (sector_pos s' - sector_pos s) \<and>
      t = t0 + write_time hw d (rba s) (sector_pos s' - sector_pos s))"
| "write_post hw d s e t0 (Xfer_defective s' e') =
     (same_regs s s' \<and> same_lines e e' \<and>
      sector_pos s \<le> sector_pos s' \<and> sector_pos s' < sector_count s \<and>
      write_fails hw (hdd_num d) (rba s'))"
| "write_post hw d s e t0 Xfer_fatal = True"
| "write_post hw d s e t0 Xfer_bounds = True"




subsection \<open>Vocabulary for the properties of the executor\<close>

text \<open>
  Observations of a run (\<open>status_word\<close>, \<open>irq_status_of\<close> and the like), scripts of
  register accesses for the examples, and the conditions under which the source calls
  each of its four error routines: \<open>detects_unsupported\<close> (the macros
  \<^verbatim>\<open>ESDI_DRIVE_ONLY\<close> and \<^verbatim>\<open>ESDI_ADAPTER_ONLY\<close>), \<open>detects_not_present\<close> (the test of
  \<^verbatim>\<open>drive->present\<close>), \<open>detects_out_of_range\<close> (the range test of phase 0, with the
  operands as \<open>transfer_setup\<close> decodes them, and the test of \<^verbatim>\<open>CMD_SEEK\<close> before its
  \<^verbatim>\<open>switch\<close>), \<open>detects_defective\<close> (a failed image read or write in the sector loop).
  \<open>failure_reported\<close> is what the claims say of a reported error. \<open>irq_effect\<close> and
  \<open>irq_inv\<close> relate the IRQ bit of the status register to the in-progress flag.
\<close>

definition seek_script :: "u16 \<Rightarrow> io list" where
  "seek_script a =
     [Io_callback, Io_write 0x3513 0x01, Io_writew 0x3510 0x4005, Io_writew 0x3510 0,
      Io_writew 0x3510 a, Io_writew 0x3510 0, Io_callback, Io_callback]"

definition status_word :: "nat \<Rightarrow> error + esdi_t \<times> env \<Rightarrow> u16" where
  "status_word i r = (case r of Inl err \<Rightarrow> 0 | Inr (s, e) \<Rightarrow> status_data s ! i)"

definition irq_status_of :: "error + esdi_t \<times> env \<Rightarrow> u8" where
  "irq_status_of r = (case r of Inl err \<Rightarrow> 0 | Inr (s, e) \<Rightarrow> irq_status s)"

definition irq_effect :: "esdi_t \<Rightarrow> esdi_t \<Rightarrow> bool" where
  "irq_effect s s' =
     ((status s' = status s \<and> irq_status s' = irq_status s \<and>
       irq_in_progress s' = irq_in_progress s) \<or>
      irq_in_progress s' \<or> status s' AND STATUS_IRQ = 0)"

definition irq_inv :: "esdi_t \<Rightarrow> bool" where
  "irq_inv s = (status s AND STATUS_IRQ \<noteq> 0 \<longrightarrow>
                 irq_in_progress s \<or>
                 irq_status s = word_of_int (IRQ_HOST_ADAPTER OR IRQ_RESET_COMPLETE))"

text \<open>
  \<open>queues_ok\<close>: the two queues are within their arrays, and a command queue holding
  two or three words has the length flag set in word 0. \<open>queue_effect\<close>: what a
  callback may do to the queues.
\<close>

definition queues_ok :: "esdi_t \<Rightarrow> bool" where
  "queues_ok s =
     (length (cmd_data s) = 4 \<and> length (status_data s) = 256 \<and> cmd_pos s < 4 \<and>
      (2 \<le> cmd_pos s \<longrightarrow> cmd_data s ! 0 AND CMD_SIZE_4 \<noteq> 0) \<and> status_len s \<le> 9)"

definition queue_effect :: "esdi_t \<Rightarrow> esdi_t \<Rightarrow> bool" where
  "queue_effect s s' =
     (cmd_data s' = cmd_data s \<and> cmd_pos s' = cmd_pos s \<and>
      length (status_data s') = length (status_data s) \<and>
      (status_len s' = status_len s \<or> status_len s' \<le> 9))"

text \<open>The adapter after the callback that ends the reset of \<open>adapter_0\<close>.\<close>

definition after_reset :: esdi_t where
  "after_reset =
     adapter_0\<lparr>in_reset := False, status := 0x0b, status_len := 1,
               status_data := (status_data adapter_0)[0 := 0x01e0], irq_status := 0xea\<rparr>"

definition unsupported_script :: "io list" where
  "unsupported_script =
     [Io_callback, Io_write 0x3513 0x01, Io_writew 0x3510 0x000a, Io_writew 0x3510 0,
      Io_callback, Io_read 0x3513]"

definition drive_command :: "int \<Rightarrow> bool" where
  "drive_command c =
     (c = CMD_READ \<or> c = 0x15 \<or> c = CMD_WRITE \<or> c = CMD_WRITE_VERIFY \<or>
      c = CMD_READ_VERIFY \<or> c = CMD_SEEK \<or> c = CMD_PARK_HEADS \<or> c = CMD_GET_DEV_STATUS \<or>
      c = CMD_FORMAT_UNIT \<or> c = CMD_FORMAT_PREPARE)"

definition adapter_command :: "int \<Rightarrow> bool" where
  "adapter_command c = (c = CMD_GET_POS_INFO \<or> c = 0x10 \<or> c = 0x11 \<or> c = 0x12)"

definition detects_unsupported :: "esdi_t \<Rightarrow> bool" where
  "detects_unsupported s =
     ((drive_command (command s) \<and> not_a_drive s) \<or>
      (command s = CMD_GET_DEV_CONFIG \<and> cmd_dev s \<noteq> ATTN_HOST_ADAPTER \<and> not_a_drive s) \<or>
      (adapter_command (command s) \<and> cmd_dev s \<noteq> ATTN_HOST_ADAPTER))"

definition detects_not_present :: "esdi_t \<Rightarrow> bool" where
  "detects_not_present s =
     ((drive_command (command s) \<or> command s = CMD_GET_DEV_CONFIG) \<and>
      \<not> not_a_drive s \<and> \<not> present (selected_drive s))"

definition transfer_setup :: "esdi_t \<Rightarrow> esdi_t" where
  "transfer_setup s =
     (if command s = CMD_READ_VERIFY
      then s\<lparr>rba := decode_rba s, sector_count := unat (cmd_data s ! 1)\<rparr>
      else if command s = 0x15
      then s\<lparr>sector_pos := 0, sector_count := unat (cmd_data s ! 1)\<rparr>
      else s\<lparr>rba := decode_rba s, sector_pos := 0, sector_count := unat (cmd_data s ! 1)\<rparr>)"

definition detects_out_of_range :: "hdd_model \<Rightarrow> esdi_t \<Rightarrow> bool" where
  "detects_out_of_range hw s =
     (\<not> not_a_drive s \<and> present (selected_drive s) \<and>
      (((command s = CMD_READ \<or> command s = 0x15 \<or> command s = CMD_WRITE \<or>
         command s = CMD_WRITE_VERIFY \<or> command s = CMD_READ_VERIFY) \<and>
        cmd_state s = 0 \<and> rba_beyond_last hw (selected_drive s) (transfer_setup s)) \<or>
       (command s = CMD_SEEK \<and> rba_beyond_last hw (selected_drive s) s)))"

fun is_defective :: "xfer \<Rightarrow> bool" where
  "is_defective (Xfer_defective s e) = True"
| "is_defective r = False"

definition detects_defective :: "hdd_model \<Rightarrow> esdi_t \<Rightarrow> env \<Rightarrow> bool" where
  "detects_defective hw s e =
     (\<not> not_a_drive s \<and> present (selected_drive s) \<and> cmd_state s = 1 \<and>
      basic_ctrl s AND CTRL_DMA_ENA \<noteq> 0 \<and>
      (((command s = CMD_READ \<or> command s = 0x15) \<and>
        is_defective (read_sectors hw (selected_drive s) s e 0)) \<or>
       ((command s = CMD_WRITE \<or> command s = CMD_WRITE_VERIFY) \<and>
        is_defective (write_sectors hw (selected_drive s) s e 0))))"

definition failure_reported :: "u16 \<Rightarrow> u16 \<Rightarrow> esdi_t \<times> env \<Rightarrow> esdi_t \<times> env \<Rightarrow> bool" where
  "failure_reported w1 w2 x y =
     (status_len (fst y) = 9 \<and> status_data (fst y) ! 1 = w1 \<and> status_data (fst y) ! 2 = w2 \<and>
      status (fst y) = STATUS_IRQ OR STATUS_STATUS_OUT_FULL \<and>
      irq_status (fst y) = word_of_int (cmd_dev (fst x) OR IRQ_CMD_COMPLETE_FAILURE) \<and>
      irq_in_progress (fst y) \<and> irq_ena_disable (fst y) \<and>
      irq_line (snd y) = (if basic_ctrl (fst x) AND CTRL_IRQ_ENA \<noteq> 0 then True
                          else irq_line (snd x)) \<and>
      command (fst y) = command (fst x) \<and> cmd_state (fst y) = cmd_state (fst x) \<and>
      timer (snd y) = timer (snd x))"

definition read_cmd :: "u16 \<Rightarrow> u16 \<Rightarrow> esdi_t" where
  "read_cmd a n = adapter_0\<lparr>in_reset := False, command := CMD_READ, cmd_data := [0x4001, n, a, 0]\<rparr>"

definition hw_bad :: hdd_model where
  "hw_bad = hw_1000\<lparr>read_fails := (\<lambda>n a. a = 3)\<rparr>"

definition status_of :: "error + esdi_t \<times> env \<Rightarrow> u8" where
  "status_of r = (case r of Inl err \<Rightarrow> 0 | Inr (s, e) \<Rightarrow> status s)"

definition in_progress_of :: "error + esdi_t \<times> env \<Rightarrow> bool" where
  "in_progress_of r = (case r of Inl err \<Rightarrow> False | Inr (s, e) \<Rightarrow> irq_in_progress s)"

definition reached :: "error + esdi_t \<times> env \<Rightarrow> bool" where
  "reached r = (case r of Inl err \<Rightarrow> False | Inr (s, e) \<Rightarrow> reachable s)"


definition env_dma :: "int list \<Rightarrow> env" where
  "env_dma ws = env_idle\<lparr>dma_wr := ws\<rparr>"

definition read_script :: "u16 \<Rightarrow> u16 \<Rightarrow> io list" where
  "read_script a n =
     [Io_callback, Io_write 0x3512 0x02, Io_write 0x3513 0x01, Io_writew 0x3510 0x4001,
      Io_writew 0x3510 n, Io_writew 0x3510 a, Io_writew 0x3510 0, Io_callback, Io_callback]"

definition timer_of :: "error + esdi_t \<times> env \<Rightarrow> real option" where
  "timer_of r = (case r of Inl err \<Rightarrow> None | Inr (s, e) \<Rightarrow> timer e)"

definition phase_of :: "error + esdi_t \<times> env \<Rightarrow> nat" where
  "phase_of r = (case r of Inl err \<Rightarrow> 0 | Inr (s, e) \<Rightarrow> cmd_state s)"

definition cursor_of :: "error + esdi_t \<times> env \<Rightarrow> nat \<times> nat" where
  "cursor_of r = (case r of Inl err \<Rightarrow> (0, 0) | Inr (s, e) \<Rightarrow> (sector_pos s, data_pos s))"









section \<open>Properties of the transfer loops\<close>

lemma same_regs_refl: "same_regs s s"
  by (simp add: same_regs_def)

lemma same_regs_upd:
  "same_regs s (s\<lparr>data := a\<rparr>)" "same_regs s (s\<lparr>data_pos := b\<rparr>)"
  "same_regs s (s\<lparr>data := a, data_pos := b\<rparr>)"
  by (simp_all add: same_regs_def)

lemma same_regs_fields:
  assumes "same_regs s s'"
  shows "basic_ctrl s' = basic_ctrl s" "status s' = status s" "irq_status s' = irq_status s"
    "irq_ena_disable s' = irq_ena_disable s" "irq_in_progress s' = irq_in_progress s"
    "cmd_req_in_progress s' = cmd_req_in_progress s" "cmd_pos s' = cmd_pos s"
    "cmd_data s' = cmd_data s" "cmd_dev s' = cmd_dev s" "status_pos s' = status_pos s"
    "status_len s' = status_len s" "status_data s' = status_data s"
    "sector_count s' = sector_count s" "command s' = command s" "cmd_state s' = cmd_state s"
    "in_reset s' = in_reset s" "drives s' = drives s" "pos_regs s' = pos_regs s"
proof -
  obtain d p k r b where eq: "s' = s\<lparr>data := d, data_pos := p, sector_pos := k, rba := r, sector_buffer := b\<rparr>"
    using assms unfolding same_regs_def by blast
  show "basic_ctrl s' = basic_ctrl s" "status s' = status s" "irq_status s' = irq_status s"
    "irq_ena_disable s' = irq_ena_disable s" "irq_in_progress s' = irq_in_progress s"
    "cmd_req_in_progress s' = cmd_req_in_progress s" "cmd_pos s' = cmd_pos s"
    "cmd_data s' = cmd_data s" "cmd_dev s' = cmd_dev s" "status_pos s' = status_pos s"
    "status_len s' = status_len s" "status_data s' = status_data s"
    "sector_count s' = sector_count s" "command s' = command s" "cmd_state s' = cmd_state s"
    "in_reset s' = in_reset s" "drives s' = drives s" "pos_regs s' = pos_regs s"
    by (simp_all add: eq)
qed

lemma same_regs_trans: "same_regs s s1 \<Longrightarrow> same_regs s1 s2 \<Longrightarrow> same_regs s s2"
proof -
  assume a: "same_regs s s1" and b: "same_regs s1 s2"
  obtain d p k r bb where e1: "s1 = s\<lparr>data := d, data_pos := p, sector_pos := k, rba := r, sector_buffer := bb\<rparr>"
    using a unfolding same_regs_def by blast
  obtain d' p' k' r' bb' where e2: "s2 = s1\<lparr>data := d', data_pos := p', sector_pos := k', rba := r', sector_buffer := bb'\<rparr>"
    using b unfolding same_regs_def by blast
  show ?thesis unfolding same_regs_def by (simp add: e1 e2)
qed

lemma same_lines_trans: "same_lines e e1 \<Longrightarrow> same_lines e1 e2 \<Longrightarrow> same_lines e e2"
  by (simp add: same_lines_def)

lemma xfer_frame_step:
  assumes "same_regs s s1" and "same_lines e e1" and "xfer_frame s1 e1 r"
  shows "xfer_frame s e r"
  using assms
  by (cases r) (auto intro: same_regs_trans same_lines_trans)

lemma dma_channel_write_lines: "dma_channel_write w e = (v, e') \<Longrightarrow> same_lines e e'"
  by (auto simp: same_lines_def dma_channel_write_def split: list.splits if_splits)

lemma dma_channel_read_lines: "dma_channel_read e = (v, e') \<Longrightarrow> same_lines e e'"
  by (auto simp: same_lines_def dma_channel_read_def split: list.splits)

lemma dma_ready_simps:
  "dma_ready [] = 0"
  "dma_ready (v # vs) = (if v = DMA_NODATA then 0 else Suc (dma_ready vs))"
  by (simp_all add: dma_ready_def)

lemma env_same_wr: "dma_wr e = [] \<Longrightarrow> e\<lparr>dma_wr := []\<rparr> = e"
  by (cases e) simp

lemma xfer_to_dma_eq:
  "pos \<le> 256 \<Longrightarrow>
   xfer_to_dma buf pos e =
     (if 256 - pos \<le> dma_ready (dma_wr e)
      then (True, 256, e\<lparr>dma_wr := drop (256 - pos) (dma_wr e),
                         dma_out := dma_out e @ map ((!) buf) [pos..<256]\<rparr>)
      else (False, pos + dma_ready (dma_wr e),
            e\<lparr>dma_wr := drop (Suc (dma_ready (dma_wr e))) (dma_wr e),
              dma_out := dma_out e @ map ((!) buf) [pos..<pos + dma_ready (dma_wr e)]\<rparr>))"
proof (induction buf pos e rule: xfer_to_dma.induct)
  case (1 buf pos e)
  show ?case
  proof (cases "pos < 256")
    case False
    with "1.prems" have "pos = 256" by simp
    then show ?thesis by (simp add: xfer_to_dma.simps)
  next
    case lt: True
    show ?thesis
    proof (cases "dma_wr e")
      case Nil
      with lt show ?thesis
        by (simp add: xfer_to_dma.simps dma_channel_write_def dma_ready_simps env_same_wr)
    next
      case (Cons v vs)
      show ?thesis
      proof (cases "v = DMA_NODATA")
        case True
        with lt Cons show ?thesis
          by (simp add: xfer_to_dma.simps dma_channel_write_def dma_ready_simps)
      next
        case False
        let ?e1 = "e\<lparr>dma_wr := vs, dma_out := dma_out e @ [buf ! pos]\<rparr>"
        have w: "dma_channel_write (buf ! pos) e = (v, ?e1)"
          using Cons False by (simp add: dma_channel_write_def)
        have step: "xfer_to_dma buf pos e = xfer_to_dma buf (pos + 1) ?e1"
          using lt w False by (subst xfer_to_dma.simps) simp
        have ih: "xfer_to_dma buf (pos + 1) ?e1 =
           (if 256 - (pos + 1) \<le> dma_ready (dma_wr ?e1)
            then (True, 256, ?e1\<lparr>dma_wr := drop (256 - (pos + 1)) (dma_wr ?e1),
                         dma_out := dma_out ?e1 @ map ((!) buf) [pos + 1..<256]\<rparr>)
            else (False, pos + 1 + dma_ready (dma_wr ?e1),
                  ?e1\<lparr>dma_wr := drop (Suc (dma_ready (dma_wr ?e1))) (dma_wr ?e1),
                    dma_out := dma_out ?e1 @ map ((!) buf) [pos + 1..<pos + 1 + dma_ready (dma_wr ?e1)]\<rparr>))"
          using "1.IH" [OF lt w [symmetric] False] lt by simp
        have acc: "dma_ready (dma_wr e) = Suc (dma_ready vs)"
          using Cons False by (simp add: dma_ready_simps)
        have u1: "[pos..<256] = pos # [pos + 1..<256]"
          using lt by (simp add: upt_conv_Cons)
        have u2: "[pos..<pos + Suc (dma_ready vs)] = pos # [pos + 1..<pos + 1 + dma_ready vs]"
          by (simp add: upt_conv_Cons)
        have d: "256 - pos = Suc (256 - (pos + 1))" using lt by simp
        show ?thesis
          unfolding step ih acc u1 u2 d using Cons by simp
      qed
    qed
  qed
qed

lemma env_same_rd: "dma_rd e = [] \<Longrightarrow> e\<lparr>dma_rd := []\<rparr> = e"
  by (cases e) simp

lemma xfer_from_dma_eq:
  "pos \<le> 256 \<Longrightarrow>
   xfer_from_dma buf pos e =
     (if 256 - pos \<le> dma_ready (dma_rd e)
      then (True, fill buf pos (take (256 - pos) (dma_rd e)), 256,
            e\<lparr>dma_rd := drop (256 - pos) (dma_rd e)\<rparr>)
      else (False, fill buf pos (take (dma_ready (dma_rd e)) (dma_rd e)),
            pos + dma_ready (dma_rd e),
            e\<lparr>dma_rd := drop (Suc (dma_ready (dma_rd e))) (dma_rd e)\<rparr>))"
proof (induction buf pos e rule: xfer_from_dma.induct)
  case (1 buf pos e)
  show ?case
  proof (cases "pos < 256")
    case False
    with "1.prems" have "pos = 256" by simp
    then show ?thesis by (simp add: xfer_from_dma.simps)
  next
    case lt: True
    show ?thesis
    proof (cases "dma_rd e")
      case Nil
      with lt show ?thesis
        by (simp add: xfer_from_dma.simps dma_channel_read_def dma_ready_simps env_same_rd)
    next
      case (Cons v vs)
      show ?thesis
      proof (cases "v = DMA_NODATA")
        case True
        with lt Cons show ?thesis
          by (simp add: xfer_from_dma.simps dma_channel_read_def dma_ready_simps)
      next
        case False
        let ?e1 = "e\<lparr>dma_rd := vs\<rparr>"
        let ?b1 = "buf[pos := word_of_int v]"
        have w: "dma_channel_read e = (v, ?e1)"
          using Cons by (simp add: dma_channel_read_def)
        have step: "xfer_from_dma buf pos e = xfer_from_dma ?b1 (pos + 1) ?e1"
          using lt w False by (subst xfer_from_dma.simps) simp
        have ih: "xfer_from_dma ?b1 (pos + 1) ?e1 =
           (if 256 - (pos + 1) \<le> dma_ready (dma_rd ?e1)
            then (True, fill ?b1 (pos + 1) (take (256 - (pos + 1)) (dma_rd ?e1)), 256,
                  ?e1\<lparr>dma_rd := drop (256 - (pos + 1)) (dma_rd ?e1)\<rparr>)
            else (False, fill ?b1 (pos + 1) (take (dma_ready (dma_rd ?e1)) (dma_rd ?e1)),
                  pos + 1 + dma_ready (dma_rd ?e1),
                  ?e1\<lparr>dma_rd := drop (Suc (dma_ready (dma_rd ?e1))) (dma_rd ?e1)\<rparr>))"
          using "1.IH" [OF lt w [symmetric] False] lt by simp
        have acc: "dma_ready (dma_rd e) = Suc (dma_ready vs)"
          using Cons False by (simp add: dma_ready_simps)
        have d: "256 - pos = Suc (256 - (pos + 1))" using lt by simp
        show ?thesis
          unfolding step ih acc d using Cons by simp
      qed
    qed
  qed
qed

lemma xfer_to_dma_gt: "256 < pos \<Longrightarrow> xfer_to_dma buf pos e = (True, pos, e)"
  by (simp add: xfer_to_dma.simps)

lemma xfer_from_dma_gt: "256 < pos \<Longrightarrow> xfer_from_dma buf pos e = (True, buf, pos, e)"
  by (simp add: xfer_from_dma.simps)

lemma xfer_to_dma_post:
  assumes "xfer_to_dma buf pos e = (b, pos', e')"
  shows "same_lines e e' \<and> pos \<le> pos' \<and> (\<not> b \<longrightarrow> pos' < 256) \<and> (b \<longrightarrow> 256 \<le> pos') \<and>
         dma_rd e' = dma_rd e \<and> disk e' = disk e \<and> disk_log e' = disk_log e \<and>
         dma_out e' = dma_out e @ map ((!) buf) [pos..<pos']"
proof (cases "pos \<le> 256")
  case True
  from assms show ?thesis
    unfolding xfer_to_dma_eq [OF True] using True
    by (auto simp: same_lines_def split: if_splits)
next
  case False
  then have "256 < pos" by simp
  from assms show ?thesis
    unfolding xfer_to_dma_gt [OF \<open>256 < pos\<close>] using False by (auto simp: same_lines_def)
qed

lemma xfer_from_dma_post:
  assumes "xfer_from_dma buf pos e = (b, buf', pos', e')"
  shows "same_lines e e' \<and> pos \<le> pos' \<and> (\<not> b \<longrightarrow> pos' < 256) \<and> (b \<longrightarrow> 256 \<le> pos') \<and>
         dma_wr e' = dma_wr e \<and> dma_out e' = dma_out e \<and> disk e' = disk e \<and>
         disk_log e' = disk_log e"
proof (cases "pos \<le> 256")
  case True
  from assms show ?thesis
    unfolding xfer_from_dma_eq [OF True] using True
    by (auto simp: same_lines_def split: if_splits)
next
  case False
  then have "256 < pos" by simp
  from assms show ?thesis
    unfolding xfer_from_dma_gt [OF \<open>256 < pos\<close>] using False by (auto simp: same_lines_def)
qed

lemma read_time_0: "read_time hw d a 0 = 0"
  by (simp add: read_time_def)

lemma read_time_Suc_front:
  "read_time hw d a (Suc n) = sector_read_time hw d a + read_time hw d (a + 1) n"
  by (simp add: read_time_def sum.lessThan_Suc_shift add.assoc add.commute [of 1] del: sum.lessThan_Suc)

lemma read_post_step:
  assumes lt: "sector_pos s < sector_count s"
    and regs: "same_regs s s2" and lines: "same_lines e e2"
    and s2: "data_pos s2 = 0" "sector_pos s2 = sector_pos s + 1" "rba s2 = rba s + 1"
    and t1: "t1 = t0 + (if data_pos s = 0 then sector_read_time hw d (rba s) else 0)"
    and post: "read_post hw d s2 e2 t1 r"
  shows "read_post hw d s e t0 r"
proof -
  have cnt: "sector_count s2 = sector_count s" using regs by (simp add: same_regs_fields)
  have fp2: "first_pos s2 = sector_pos s + 1" using s2 by (simp add: first_pos_def)
  have tm: "\<And>k. sector_pos s < k \<Longrightarrow>
      t1 + read_time hw d (rba s + 1) (k - (sector_pos s + 1)) =
      t0 + read_time hw d (rba s + of_nat (first_pos s - sector_pos s)) (k - first_pos s)"
  proof -
    fix k assume k: "sector_pos s < k"
    show "t1 + read_time hw d (rba s + 1) (k - (sector_pos s + 1)) =
      t0 + read_time hw d (rba s + of_nat (first_pos s - sector_pos s)) (k - first_pos s)"
    proof (cases "data_pos s = 0")
      case True
      have "k - sector_pos s = Suc (k - (sector_pos s + 1))" using k by simp
      then show ?thesis using True t1 by (simp add: first_pos_def read_time_Suc_front)
    next
      case False
      then show ?thesis using t1 by (simp add: first_pos_def)
    qed
  qed
  have ad: "\<And>k. sector_pos s < k \<Longrightarrow>
      rba s + 1 + of_nat (k - (sector_pos s + 1)) = rba s + of_nat (k - sector_pos s)"
  proof -
    fix k assume "sector_pos s < k"
    then have "k - sector_pos s = Suc (k - (sector_pos s + 1))" by simp
    then show "rba s + 1 + of_nat (k - (sector_pos s + 1)) = rba s + of_nat (k - sector_pos s)"
      by simp
  qed
  show ?thesis
  proof (cases r)
    case (Xfer_done s' e' t)
    with post have p: "same_regs s2 s'" "same_lines e2 e'"
      "sector_pos s' = max (sector_pos s2) (sector_count s2)"
      "data_pos s' = (if sector_pos s2 < sector_count s2 then 0 else data_pos s2)"
      "rba s' = rba s2 + of_nat (sector_pos s' - sector_pos s2)"
      "t = t1 + read_time hw d (rba s2 + of_nat (first_pos s2 - sector_pos s2))
                 (sector_count s2 - first_pos s2)"
      by simp_all
    have sp: "sector_pos s' = sector_count s" using p(3) s2 cnt lt by simp
    have dp: "data_pos s' = 0" using p(4) s2 by simp
    have rb: "rba s' = rba s + of_nat (sector_pos s' - sector_pos s)"
      using p(5) s2 ad [of "sector_pos s'"] sp lt by simp
    have tt: "t = t0 + read_time hw d (rba s + of_nat (first_pos s - sector_pos s))
                 (sector_count s - first_pos s)"
      using p(6) s2 fp2 cnt tm [OF lt] by simp
    show ?thesis
      unfolding Xfer_done read_post.simps
      using same_regs_trans [OF regs p(1)] same_lines_trans [OF lines p(2)] sp dp rb tt lt
      by simp
  next
    case (Xfer_nodata s' e' t)
    with post have p: "same_regs s2 s'" "same_lines e2 e'"
      "sector_pos s2 \<le> sector_pos s'" "sector_pos s' < sector_count s2" "data_pos s' < 256"
      "rba s' = rba s2 + of_nat (sector_pos s' - sector_pos s2)"
      "t = t1 + read_time hw d (rba s2 + of_nat (first_pos s2 - sector_pos s2))
                 (sector_pos s' + 1 - first_pos s2)"
      by simp_all
    have k: "sector_pos s < sector_pos s'" using p(3) s2 by simp
    have rb: "rba s' = rba s + of_nat (sector_pos s' - sector_pos s)"
      using p(6) s2 ad [OF k] by simp
    have k1: "sector_pos s < sector_pos s' + 1" using k by simp
    have tt: "t = t0 + read_time hw d (rba s + of_nat (first_pos s - sector_pos s))
                 (sector_pos s' + 1 - first_pos s)"
      using p(7) s2 fp2 tm [OF k1] by simp
    show ?thesis
      unfolding Xfer_nodata read_post.simps
      using same_regs_trans [OF regs p(1)] same_lines_trans [OF lines p(2)] k p(4) p(5) cnt rb tt
      by simp
  next
    case (Xfer_defective s' e')
    with post regs lines s2 cnt show ?thesis
      by (auto intro: same_regs_trans same_lines_trans)
  qed simp_all
qed

lemma load_sector_cases:
  "load_sector hw d s e t = Inl Xfer_fatal \<or>
   (\<exists>e1. load_sector hw d s e t = Inl (Xfer_defective s e1) \<and> same_lines e e1 \<and>
      read_fails hw (hdd_num d) (rba s)) \<or>
   (\<exists>e1. load_sector hw d s e t =
      Inr (s\<lparr>data := disk e (hdd_num d) (rba s)\<rparr>, e1, t + sector_read_time hw d (rba s)) \<and>
      same_lines e e1)"
  by (auto simp: load_sector_def hdd_image_read_def same_lines_def sector_read_time_def)

lemma read_sectors_post: "read_post hw d s e t0 (read_sectors hw d s e t0)"
proof (induction "sector_count s - sector_pos s" arbitrary: s e t0 rule: less_induct)
  case less
  show ?case
  proof (cases "sector_pos s < sector_count s")
    case False
    then show ?thesis
      by (subst read_sectors.simps)
         (simp add: same_regs_refl same_lines_def first_pos_def read_time_0 max_def)
  next
    case lt: True
    have main: "\<And>s1 e1 t1. same_regs s s1 \<Longrightarrow> same_lines e e1 \<Longrightarrow>
        data_pos s1 = data_pos s \<Longrightarrow> sector_pos s1 = sector_pos s \<Longrightarrow> rba s1 = rba s \<Longrightarrow>
        t1 = t0 + (if data_pos s = 0 then sector_read_time hw d (rba s) else 0) \<Longrightarrow>
        read_post hw d s e t0
          (case xfer_to_dma (data s1) (data_pos s1) e1 of
             (False, pos, e2) \<Rightarrow> Xfer_nodata (s1\<lparr>data_pos := pos\<rparr>) e2 t1
           | (True, pos, e2) \<Rightarrow>
               read_sectors hw d
                 (s1\<lparr>data_pos := 0, sector_pos := sector_pos s1 + 1, rba := rba s1 + 1\<rparr>) e2 t1)"
    proof -
      fix s1 e1 t1
      assume regs: "same_regs s s1" and lines: "same_lines e e1"
        and dp: "data_pos s1 = data_pos s" and sp: "sector_pos s1 = sector_pos s"
        and rb: "rba s1 = rba s"
        and t1: "t1 = t0 + (if data_pos s = 0 then sector_read_time hw d (rba s) else 0)"
      obtain b pos e2 where x: "xfer_to_dma (data s1) (data_pos s1) e1 = (b, pos, e2)"
        by (metis prod_cases3)
      note xp = xfer_to_dma_post [OF x]
      have l2: "same_lines e e2" using lines xp by (blast intro: same_lines_trans)
      have cnt: "sector_count s1 = sector_count s" using regs by (simp add: same_regs_fields)
      show "read_post hw d s e t0
          (case xfer_to_dma (data s1) (data_pos s1) e1 of
             (False, pos, e2) \<Rightarrow> Xfer_nodata (s1\<lparr>data_pos := pos\<rparr>) e2 t1
           | (True, pos, e2) \<Rightarrow>
               read_sectors hw d
                 (s1\<lparr>data_pos := 0, sector_pos := sector_pos s1 + 1, rba := rba s1 + 1\<rparr>) e2 t1)"
      proof (cases b)
        case False
        have r1: "same_regs s (s1\<lparr>data_pos := pos\<rparr>)"
          using regs same_regs_upd(2) [of s1 pos] by (rule same_regs_trans)
        have tt: "t1 = t0 + read_time hw d (rba s + of_nat (first_pos s - sector_pos s))
                 (sector_pos s + 1 - first_pos s)"
          using t1 by (simp add: first_pos_def read_time_0 read_time_Suc_front)
        show ?thesis
          unfolding x using False r1 l2 xp lt sp rb tt by simp
      next
        case True
        let ?s2 = "s1\<lparr>data_pos := 0, sector_pos := sector_pos s1 + 1, rba := rba s1 + 1\<rparr>"
        have r2: "same_regs s ?s2"
        proof -
          have "same_regs s1 ?s2" by (simp add: same_regs_def)
          with regs show ?thesis by (rule same_regs_trans)
        qed
        have "sector_count ?s2 - sector_pos ?s2 < sector_count s - sector_pos s"
          using lt sp cnt by simp
        then have ih: "read_post hw d ?s2 e2 t1 (read_sectors hw d ?s2 e2 t1)"
          by (rule less)
        have "read_post hw d s e t0 (read_sectors hw d ?s2 e2 t1)"
          by (rule read_post_step [OF lt r2 l2 _ _ _ t1 ih]) (simp_all add: sp rb)
        then show ?thesis unfolding x using True by simp
      qed
    qed
    show ?thesis
    proof (cases "data_pos s = 0")
      case False
      have "read_sectors hw d s e t0 =
          (case xfer_to_dma (data s) (data_pos s) e of
             (False, pos, e2) \<Rightarrow> Xfer_nodata (s\<lparr>data_pos := pos\<rparr>) e2 t0
           | (True, pos, e2) \<Rightarrow>
               read_sectors hw d
                 (s\<lparr>data_pos := 0, sector_pos := sector_pos s + 1, rba := rba s + 1\<rparr>) e2 t0)"
        using lt False by (subst read_sectors.simps) simp
      then show ?thesis
        using main [of s e t0] False by (simp add: same_regs_refl same_lines_def)
    next
      case True
      from load_sector_cases [of hw d s e t0]
      consider (fatal) "load_sector hw d s e t0 = Inl Xfer_fatal"
        | (bad) e1 where "load_sector hw d s e t0 = Inl (Xfer_defective s e1)" "same_lines e e1"
            "read_fails hw (hdd_num d) (rba s)"
        | (ok) e1 where "load_sector hw d s e t0 =
            Inr (s\<lparr>data := disk e (hdd_num d) (rba s)\<rparr>, e1, t0 + sector_read_time hw d (rba s))"
            "same_lines e e1"
        by blast
      then show ?thesis
      proof cases
        case fatal
        then show ?thesis using lt True by (subst read_sectors.simps) simp
      next
        case bad
        then show ?thesis using lt True
          by (subst read_sectors.simps) (simp add: same_regs_refl)
      next
        case ok
        let ?s1 = "s\<lparr>data := disk e (hdd_num d) (rba s)\<rparr>"
        have eq: "read_sectors hw d s e t0 =
          (case xfer_to_dma (data ?s1) (data_pos ?s1) e1 of
             (False, pos, e2) \<Rightarrow> Xfer_nodata (?s1\<lparr>data_pos := pos\<rparr>) e2
                                     (t0 + sector_read_time hw d (rba s))
           | (True, pos, e2) \<Rightarrow>
               read_sectors hw d
                 (?s1\<lparr>data_pos := 0, sector_pos := sector_pos ?s1 + 1, rba := rba ?s1 + 1\<rparr>) e2
                 (t0 + sector_read_time hw d (rba s)))"
          using lt True ok(1) by (subst read_sectors.simps) simp
        show ?thesis
          unfolding eq
          by (rule main) (simp_all add: same_regs_upd ok(2) True)
      qed
    qed
  qed
qed

lemma write_time_0: "write_time hw d a 0 = 0"
  by (simp add: write_time_def)

lemma write_time_Suc_front:
  "write_time hw d a (Suc n) = sector_write_time hw d a + write_time hw d (a + 1) n"
  by (simp add: write_time_def sum.lessThan_Suc_shift add.assoc add.commute [of 1] del: sum.lessThan_Suc)

lemma write_post_step:
  assumes lt: "sector_pos s < sector_count s"
    and regs: "same_regs s s2" and lines: "same_lines e e2"
    and s2: "data_pos s2 = 0" "sector_pos s2 = sector_pos s + 1" "rba s2 = rba s + 1"
    and t1: "t1 = t0 + sector_write_time hw d (rba s)"
    and post: "write_post hw d s2 e2 t1 r"
  shows "write_post hw d s e t0 r"
proof -
  have cnt: "sector_count s2 = sector_count s" using regs by (simp add: same_regs_fields)
  have tm: "\<And>k. sector_pos s < k \<Longrightarrow>
      t1 + write_time hw d (rba s + 1) (k - (sector_pos s + 1)) =
      t0 + write_time hw d (rba s) (k - sector_pos s)"
  proof -
    fix k assume k: "sector_pos s < k"
    have "k - sector_pos s = Suc (k - (sector_pos s + 1))" using k by simp
    then show "t1 + write_time hw d (rba s + 1) (k - (sector_pos s + 1)) =
      t0 + write_time hw d (rba s) (k - sector_pos s)"
      using t1 by (simp add: write_time_Suc_front)
  qed
  have ad: "\<And>k. sector_pos s < k \<Longrightarrow>
      rba s + 1 + of_nat (k - (sector_pos s + 1)) = rba s + of_nat (k - sector_pos s)"
  proof -
    fix k assume "sector_pos s < k"
    then have "k - sector_pos s = Suc (k - (sector_pos s + 1))" by simp
    then show "rba s + 1 + of_nat (k - (sector_pos s + 1)) = rba s + of_nat (k - sector_pos s)"
      by simp
  qed
  show ?thesis
  proof (cases r)
    case (Xfer_done s' e' t)
    with post have p: "same_regs s2 s'" "same_lines e2 e'"
      "sector_pos s' = max (sector_pos s2) (sector_count s2)"
      "data_pos s' = (if sector_pos s2 < sector_count s2 then 0 else data_pos s2)"
      "rba s' = rba s2 + of_nat (sector_pos s' - sector_pos s2)"
      "t = t1 + write_time hw d (rba s2) (sector_count s2 - sector_pos s2)"
      by simp_all
    have sp: "sector_pos s' = sector_count s" using p(3) s2 cnt lt by simp
    have dp: "data_pos s' = 0" using p(4) s2 by simp
    have rb: "rba s' = rba s + of_nat (sector_pos s' - sector_pos s)"
      using p(5) s2 ad [of "sector_pos s'"] sp lt by simp
    have tt: "t = t0 + write_time hw d (rba s) (sector_count s - sector_pos s)"
      using p(6) s2 cnt tm [OF lt] by simp
    show ?thesis
      unfolding Xfer_done write_post.simps
      using same_regs_trans [OF regs p(1)] same_lines_trans [OF lines p(2)] sp dp rb tt lt
      by simp
  next
    case (Xfer_nodata s' e' t)
    with post have p: "same_regs s2 s'" "same_lines e2 e'"
      "sector_pos s2 \<le> sector_pos s'" "sector_pos s' < sector_count s2" "data_pos s' < 256"
      "rba s' = rba s2 + of_nat (sector_pos s' - sector_pos s2)"
      "t = t1 + write_time hw d (rba s2) (sector_pos s' - sector_pos s2)"
      by simp_all
    have k: "sector_pos s < sector_pos s'" using p(3) s2 by simp
    have rb: "rba s' = rba s + of_nat (sector_pos s' - sector_pos s)"
      using p(6) s2 ad [OF k] by simp
    have tt: "t = t0 + write_time hw d (rba s) (sector_pos s' - sector_pos s)"
      using p(7) s2 tm [OF k] by simp
    show ?thesis
      unfolding Xfer_nodata write_post.simps
      using same_regs_trans [OF regs p(1)] same_lines_trans [OF lines p(2)] k p(4) p(5) cnt rb tt
      by simp
  next
    case (Xfer_defective s' e')
    with post regs lines s2 cnt show ?thesis
      by (auto intro: same_regs_trans same_lines_trans)
  qed simp_all
qed

lemma hdd_image_write_lines: "hdd_image_write hw n a buf e = (ok, e') \<Longrightarrow> same_lines e e'"
  by (auto simp: hdd_image_write_def same_lines_def split: if_splits)

lemma hdd_image_write_fails:
  "hdd_image_write hw n a buf e = (False, e') \<Longrightarrow> write_fails hw n a"
  by (auto simp: hdd_image_write_def split: if_splits)

lemma write_sectors_post: "write_post hw d s e t0 (write_sectors hw d s e t0)"
proof (induction "sector_count s - sector_pos s" arbitrary: s e t0 rule: less_induct)
  case less
  show ?case
  proof (cases "sector_pos s < sector_count s")
    case False
    then show ?thesis
      by (subst write_sectors.simps)
         (simp add: same_regs_refl same_lines_def write_time_0 max_def)
  next
    case lt: True
    obtain b buf pos e1 where x: "xfer_from_dma (data s) (data_pos s) e = (b, buf, pos, e1)"
      by (metis prod_cases4)
    note xp = xfer_from_dma_post [OF x]
    let ?s1 = "s\<lparr>data := buf, data_pos := pos\<rparr>"
    have r1: "same_regs s ?s1" by (simp add: same_regs_def)
    show ?thesis
    proof (cases b)
      case False
      have "write_sectors hw d s e t0 = Xfer_nodata ?s1 e1 t0"
        using lt x False by (subst write_sectors.simps) simp
      then show ?thesis using r1 xp False lt by (simp add: write_time_0)
    next
      case True
      show ?thesis
      proof (cases "rba s \<ge> word_of_int (sectors d)")
        case past: True
        have "write_sectors hw d s e t0 = Xfer_fatal"
          using lt x True past by (subst write_sectors.simps) simp
        then show ?thesis by simp
      next
        case inside: False
        obtain ok e2 where w: "hdd_image_write hw (hdd_num d) (rba s) buf e1 = (ok, e2)"
          by fastforce
        have l2: "same_lines e e2"
          using xp hdd_image_write_lines [OF w] by (blast intro: same_lines_trans)
        show ?thesis
        proof (cases ok)
          case False
          have "write_sectors hw d s e t0 = Xfer_defective ?s1 e2"
            using lt x True inside w False by (subst write_sectors.simps) simp
          then show ?thesis
            using r1 l2 lt hdd_image_write_fails [of hw "hdd_num d" "rba s" buf e1 e2] w False
            by simp
        next
          case okT: True
          let ?s2 = "s\<lparr>data := buf, rba := rba s + 1, sector_pos := sector_pos s + 1,
                        data_pos := 0\<rparr>"
          let ?t1 = "t0 + timing_write hw (hdd_num d) (rba s) 1 + esdi_mca_get_xfer_time 1"
          have eq: "write_sectors hw d s e t0 = write_sectors hw d ?s2 e2 ?t1"
            using lt x True inside w okT by (subst write_sectors.simps) simp
          have r2: "same_regs s ?s2" by (simp add: same_regs_def)
          have "sector_count ?s2 - sector_pos ?s2 < sector_count s - sector_pos s"
            using lt by simp
          then have ih: "write_post hw d ?s2 e2 ?t1 (write_sectors hw d ?s2 e2 ?t1)"
            by (rule less)
          have "write_post hw d s e t0 (write_sectors hw d ?s2 e2 ?t1)"
            by (rule write_post_step [OF lt r2 l2 _ _ _ _ ih])
               (simp_all add: sector_write_time_def)
          then show ?thesis unfolding eq .
        qed
      qed
    qed
  qed
qed

lemma write_buffer_sectors_frame: "xfer_frame s e (write_buffer_sectors s e)"
proof (induction "sector_count s - sector_pos s" arbitrary: s e rule: less_induct)
  case less
  show ?case
  proof (cases "sector_pos s < sector_count s")
    case False
    then show ?thesis
      by (subst write_buffer_sectors.simps) (simp add: same_regs_refl same_lines_def)
  next
    case lt: True
    obtain b buf pos e1 where x: "xfer_from_dma (data s) (data_pos s) e = (b, buf, pos, e1)"
      by (metis prod_cases4)
    note xp = xfer_from_dma_post [OF x]
    show ?thesis
    proof (cases "b \<and> sector_pos s < length (sector_buffer s)")
      case False
      then show ?thesis using lt x xp
        by (subst write_buffer_sectors.simps) (auto simp: same_regs_def)
    next
      case True
      let ?s2 = "s\<lparr>data := buf, sector_buffer := (sector_buffer s)[sector_pos s := buf],
                    sector_pos := sector_pos s + 1, data_pos := 0\<rparr>"
      have eq: "write_buffer_sectors s e = write_buffer_sectors ?s2 e1"
        using lt x True by (subst write_buffer_sectors.simps) simp
      have "sector_count ?s2 - sector_pos ?s2 < sector_count s - sector_pos s"
        using lt by simp
      then have ih: "xfer_frame ?s2 e1 (write_buffer_sectors ?s2 e1)" by (rule less)
      have r2: "same_regs s ?s2" by (simp add: same_regs_def)
      show ?thesis unfolding eq using xfer_frame_step [OF r2 _ ih] xp by blast
    qed
  qed
qed

lemma read_buffer_sectors_frame: "xfer_frame s e (read_buffer_sectors s e)"
proof (induction "2 * (sector_count s - sector_pos s) + (if data_pos s = 0 then 0 else 1)"
         arbitrary: s e rule: less_induct)
  case less
  show ?case
  proof (cases "sector_pos s < sector_count s")
    case False
    then show ?thesis
      by (subst read_buffer_sectors.simps) (simp add: same_regs_refl same_lines_def)
  next
    case lt: True
    show ?thesis
    proof (cases "data_pos s = 0 \<and> sector_pos s \<ge> length (sector_buffer s)")
      case True
      then show ?thesis using lt by (subst read_buffer_sectors.simps) simp
    next
      case nb: False
      let ?s1 = "if data_pos s = 0
                 then s\<lparr>data := sector_buffer s ! sector_pos s, sector_pos := sector_pos s + 1\<rparr>
                 else s"
      have r1: "same_regs s ?s1" by (simp add: same_regs_def)
      obtain b pos e1 where x: "xfer_to_dma (data ?s1) (data_pos ?s1) e = (b, pos, e1)"
        by (metis prod_cases3)
      note xp = xfer_to_dma_post [OF x]
      show ?thesis
      proof (cases b)
        case False
        have "read_buffer_sectors s e = Xfer_nodata (?s1\<lparr>data_pos := pos\<rparr>) e1 0"
          using lt nb x False by (subst read_buffer_sectors.simps) (auto simp: Let_def)
        moreover have "same_regs s (?s1\<lparr>data_pos := pos\<rparr>)" by (simp add: same_regs_def)
        ultimately show ?thesis using xp by simp
      next
        case True
        let ?s2 = "?s1\<lparr>data_pos := 0\<rparr>"
        have eq: "read_buffer_sectors s e = read_buffer_sectors ?s2 e1"
          using lt nb x True by (subst read_buffer_sectors.simps) (auto simp: Let_def)
        have "2 * (sector_count ?s2 - sector_pos ?s2) + (if data_pos ?s2 = 0 then 0 else 1)
              < 2 * (sector_count s - sector_pos s) + (if data_pos s = 0 then 0 else 1)"
          using lt by auto
        then have ih: "xfer_frame ?s2 e1 (read_buffer_sectors ?s2 e1)" by (rule less)
        have r2: "same_regs s ?s2" by (simp add: same_regs_def)
        show ?thesis unfolding eq using xfer_frame_step [OF r2 _ ih] xp by blast
      qed
    qed
  qed
qed

lemma read_sectors_frame: "xfer_frame s e (read_sectors hw d s e t0)"
  using read_sectors_post [of hw d s e t0] by (cases "read_sectors hw d s e t0") simp_all

lemma write_sectors_frame: "xfer_frame s e (write_sectors hw d s e t0)"
  using write_sectors_post [of hw d s e t0] by (cases "write_sectors hw d s e t0") simp_all










text \<open>
  A callback of command \<^verbatim>\<open>0x11\<close> that finds \<open>sector_pos\<close> at the count sends nothing,
  whatever \<open>data_pos\<close> is: the rest of a last row that was suspended is not sent.
\<close>

lemma read_buffer_sectors_at_count:
  "sector_count s \<le> sector_pos s \<Longrightarrow> read_buffer_sectors s e = Xfer_done s e 0"
  by (subst read_buffer_sectors.simps) simp





section \<open>Properties of the executor\<close>

lemmas handler_defs = esdi_read_def esdi_write_def esdi_readw_def esdi_writew_def
  timer_fire_def esdi_callback_def

lemmas irq_defs = set_irq_def clear_irq_def update_irq_def picint_common_def
  esdi_mca_set_callback_def timer_stop_def timer_on_auto_def latch_irq_def
  start_transfer_def finish_command_def complete_command_status_def
  STATUS_LEN_def STATUS_DEVICE_def

lemmas error_defs = cmd_unsupported_def device_not_present_def rba_out_of_range_def
  defective_block_def

lemmas select_defs = not_a_drive_def selected_drive_def rba_beyond_last_def decode_rba_def

lemmas machine_defs = adapter_0_def esdi_init_def env_idle_def hw_1000_def drive_1000_def
  drive_absent_def

lemma select_upd [simp]:
  "not_a_drive (s\<lparr>rba := a\<rparr>) = not_a_drive s"
  "not_a_drive (s\<lparr>cmd_state := c\<rparr>) = not_a_drive s"
  "not_a_drive (s\<lparr>sector_pos := k\<rparr>) = not_a_drive s"
  "not_a_drive (s\<lparr>sector_count := n\<rparr>) = not_a_drive s"
  "selected_drive (s\<lparr>rba := a\<rparr>) = selected_drive s"
  "selected_drive (s\<lparr>cmd_state := c\<rparr>) = selected_drive s"
  "selected_drive (s\<lparr>sector_pos := k\<rparr>) = selected_drive s"
  "selected_drive (s\<lparr>sector_count := n\<rparr>) = selected_drive s"
  by (simp_all add: not_a_drive_def selected_drive_def)

lemma decode_rba_le: "unat (decode_rba s) \<le> 0x0fffffff"
proof -
  have "decode_rba s \<le> 0x0fffffff" unfolding decode_rba_def by (rule word_and_le1)
  then show ?thesis by (simp add: word_le_nat_alt)
qed

lemma unat_u16_bound:
  fixes w :: u16
  shows "unat w < 65536"
  using unsigned_less [of w, where 'a = nat] by simp

lemma unat_ucast_u16:
  fixes w :: u16
  shows "unat (ucast w :: u32) = unat w"
proof -
  have "uint (ucast w :: u32) = uint w"
    by (rule uint_up_ucast) (simp add: is_up)
  then show ?thesis by (simp only: unat_eq_nat_uint)
qed

lemma range_sum_unat:
  fixes w :: u16
  shows "unat (decode_rba s + of_nat (unat w)) = unat (decode_rba s) + unat w"
proof -
  have "unat (decode_rba s) + unat (ucast w :: u32) < 2 ^ LENGTH(32)"
    using decode_rba_le [of s] unat_u16_bound [of w] by (simp add: unat_ucast_u16)
  then have "unat (decode_rba s + ucast w) = unat (decode_rba s) + unat (ucast w :: u32)"
    by (rule unat_add_lem [THEN iffD1])
  then show ?thesis by (simp add: unat_ucast_u16)
qed

lemma beyond_iff:
  fixes w :: u16
  assumes "rba s = decode_rba s0" and "sector_count s = unat w"
    and "last_sector hw (hdd_num d) = word_of_int n" and "0 \<le> n" and "n < 4294967296"
  shows "rba_beyond_last hw d s \<longleftrightarrow> uint (decode_rba s0) + uint w > n"
proof -
  have "uint (word_of_int n :: u32) = n"
    using assms(4,5) by (simp add: uint_word_of_int)
  then have n: "unat (word_of_int n :: u32) = nat n"
    by (simp add: unat_eq_nat_uint)
  have "rba_beyond_last hw d s \<longleftrightarrow> unat (decode_rba s0) + unat w > nat n"
    unfolding rba_beyond_last_def assms(1,2,3) word_less_nat_alt range_sum_unat n ..
  also have "\<dots> \<longleftrightarrow> uint (decode_rba s0) + uint w > n"
    using assms(4) unfolding uint_nat by linarith
  finally show ?thesis .
qed

lemma irq_effect_refl: "irq_effect s s"
  by (simp add: irq_effect_def)

lemma irq_effect_same: "same_regs s s' \<Longrightarrow> irq_effect s s'"
  by (simp add: irq_effect_def same_regs_fields)

lemma irq_effect_error:
  "cmd_unsupported (s1, e1) = (s', e') \<Longrightarrow> irq_effect s s'"
  "device_not_present (s1, e1) = (s', e') \<Longrightarrow> irq_effect s s'"
  "rba_out_of_range (s1, e1) = (s', e') \<Longrightarrow> irq_effect s s'"
  "defective_block (s1, e1) = (s', e') \<Longrightarrow> irq_effect s s'"
  by (auto simp: irq_effect_def error_defs set_irq_def)

lemma irq_effect_latch: "latch_irq st irq (s1, e1) = (s', e') \<Longrightarrow> irq_effect s s'"
  by (auto simp: irq_effect_def latch_irq_def set_irq_def)

lemma irq_effect_finish: "finish_command (s1, e1) = (s', e') \<Longrightarrow> irq_effect s s'"
  by (auto simp: irq_effect_def finish_command_def latch_irq_def set_irq_def)

lemma irq_effect_start: "start_transfer irq (s1, e1) = (s', e') \<Longrightarrow> irq_effect s s'"
  by (auto simp: irq_effect_def start_transfer_def latch_irq_def set_irq_def split: prod.splits)

lemma irq_effect_in_progress:
  "irq_effect s (s1\<lparr>status := STATUS_CMD_IN_PROGRESS, cmd_state := c\<rparr>)"
  by (simp add: irq_effect_def)

lemma xfer_result_irq:
  assumes fr: "xfer_frame s e r"
    and res: "(case r of
                 Xfer_done s1 e1 t \<Rightarrow>
                   Inr (s1\<lparr>status := STATUS_CMD_IN_PROGRESS, cmd_state := 2\<rparr>, f t e1)
               | Xfer_nodata s1 e1 t \<Rightarrow> Inr (s1, g t e1)
               | Xfer_defective s1 e1 \<Rightarrow> Inr (defective_block (s1, e1))
               | Xfer_fatal \<Rightarrow> Inl err1
               | Xfer_bounds \<Rightarrow> Inl err2) = Inr (s', e')"
  shows "irq_effect s s'"
proof (cases r)
  case (Xfer_done s1 e1 t)
  with res show ?thesis by (auto simp: irq_effect_in_progress)
next
  case (Xfer_nodata s1 e1 t)
  with res fr show ?thesis by (auto simp: irq_effect_same)
next
  case (Xfer_defective s1 e1)
  with res fr show ?thesis by (auto intro: irq_effect_error(4))
qed (use res in simp_all)

lemma irq_effect_unchanged:
  "status s' = status s \<Longrightarrow> irq_status s' = irq_status s \<Longrightarrow>
   irq_in_progress s' = irq_in_progress s \<Longrightarrow> irq_effect s s'"
  by (simp add: irq_effect_def)

lemma irq_effect_latch_phase:
  "latch_irq st irq (s1, e1) = (s3, e3) \<Longrightarrow> irq_effect s (s3\<lparr>cmd_state := c\<rparr>)"
  by (auto simp: irq_effect_def latch_irq_def set_irq_def)

lemmas irq_effect_intros = irq_effect_error irq_effect_latch irq_effect_finish irq_effect_start
  irq_effect_refl irq_effect_in_progress irq_effect_unchanged irq_effect_latch_phase

lemma cb_read_irq: "cb_read hw (s, e) = Inr (s', e') \<Longrightarrow> irq_effect s s'"
  unfolding cb_read_def Let_def
  by (auto split: if_splits intro: irq_effect_intros xfer_result_irq [OF read_sectors_frame])

lemma cb_write_irq: "cb_write hw (s, e) = Inr (s', e') \<Longrightarrow> irq_effect s s'"
  unfolding cb_write_def Let_def
  by (auto split: if_splits intro: irq_effect_intros xfer_result_irq [OF write_sectors_frame])

lemma cb_read_verify_irq: "cb_read_verify hw (s, e) = Inr (s', e') \<Longrightarrow> irq_effect s s'"
  unfolding cb_read_verify_def Let_def
  by (auto split: if_splits intro: irq_effect_intros)

lemma cb_seek_irq: "cb_seek hw (s, e) = Inr (s', e') \<Longrightarrow> irq_effect s s'"
  unfolding cb_seek_def Let_def
  by (auto split: if_splits intro: irq_effect_intros)

lemma cb_park_heads_irq: "cb_park_heads hw (s, e) = Inr (s', e') \<Longrightarrow> irq_effect s s'"
  unfolding cb_park_heads_def Let_def
  by (auto split: if_splits intro: irq_effect_intros)

lemma cb_get_dev_status_irq: "cb_get_dev_status (s, e) = Inr (s', e') \<Longrightarrow> irq_effect s s'"
  unfolding cb_get_dev_status_def Let_def
  by (auto split: if_splits intro: irq_effect_intros)

lemma cb_get_dev_config_irq: "cb_get_dev_config (s, e) = Inr (s', e') \<Longrightarrow> irq_effect s s'"
  unfolding cb_get_dev_config_def Let_def
  by (auto split: if_splits intro: irq_effect_intros)

lemma cb_get_pos_info_irq: "cb_get_pos_info (s, e) = Inr (s', e') \<Longrightarrow> irq_effect s s'"
  unfolding cb_get_pos_info_def Let_def
  by (auto split: if_splits intro: irq_effect_intros)

lemma cb_write_buffer_irq: "cb_write_buffer (s, e) = Inr (s', e') \<Longrightarrow> irq_effect s s'"
  unfolding cb_write_buffer_def Let_def
  by (auto split: if_splits intro: irq_effect_intros xfer_result_irq [OF write_buffer_sectors_frame])

lemma cb_read_buffer_irq: "cb_read_buffer (s, e) = Inr (s', e') \<Longrightarrow> irq_effect s s'"
  unfolding cb_read_buffer_def Let_def
  by (auto split: if_splits intro: irq_effect_intros xfer_result_irq [OF read_buffer_sectors_frame])

lemma cb_0x12_irq: "cb_0x12 (s, e) = Inr (s', e') \<Longrightarrow> irq_effect s s'"
  unfolding cb_0x12_def Let_def
  by (auto split: if_splits intro: irq_effect_intros)

lemma cb_format_irq: "cb_format hw (s, e) = Inr (s', e') \<Longrightarrow> irq_effect s s'"
  unfolding cb_format_def Let_def
  by (auto split: if_splits prod.splits intro: irq_effect_intros)

lemma irq_effect_inv: "irq_effect s s' \<Longrightarrow> irq_inv s \<Longrightarrow> irq_inv s'"
  by (auto simp: irq_effect_def irq_inv_def)

lemma esdi_callback_irq_inv:
  assumes "esdi_callback hw (s, e) = Inr (s', e')" and "irq_inv s"
  shows "irq_inv s'"
proof (cases "in_reset s")
  case True
  with assms(1) show ?thesis by (auto simp: esdi_callback_def irq_inv_def)
next
  case False
  with assms(1) have "irq_effect s s'"
    unfolding esdi_callback_def
    by (auto split: if_splits
          intro: cb_read_irq cb_write_irq cb_read_verify_irq cb_seek_irq cb_park_heads_irq
            cb_get_dev_status_irq cb_get_dev_config_irq cb_get_pos_info_irq cb_write_buffer_irq
            cb_read_buffer_irq cb_0x12_irq cb_format_irq)
  then show ?thesis using assms(2) by (rule irq_effect_inv)
qed

lemma and_not_irq: "(x AND - 2) AND STATUS_IRQ = 0" for x :: u8
  by (simp add: and.assoc)

lemma or_busy_irq: "(x OR STATUS_BUSY) AND STATUS_IRQ = x AND STATUS_IRQ" for x :: u8
  by (simp add: word_ao_dist)

lemma and_not_full_irq: "(x AND - 9) AND STATUS_IRQ = x AND STATUS_IRQ"
  for x :: u8
  by (simp add: and.assoc)

lemma esdi_read_irq_inv: "irq_inv s \<Longrightarrow> irq_inv (snd (esdi_read port s))"
  by (auto simp: esdi_read_def irq_inv_def and_not_irq)

lemma esdi_write_irq_inv:
  "esdi_write port val (s, e) = Inr (s', e') \<Longrightarrow> irq_inv s \<Longrightarrow> irq_inv s'"
  by (auto simp: esdi_write_def irq_inv_def and_not_irq or_busy_irq clear_irq_def update_irq_def
        Let_def split: if_splits)

lemma esdi_readw_irq_inv:
  "esdi_readw port s = Inr (w, s') \<Longrightarrow> irq_inv s \<Longrightarrow> irq_inv s'"
  by (auto simp: esdi_readw_def irq_inv_def and_not_full_irq Let_def split: if_splits)

lemma esdi_writew_irq_inv:
  "esdi_writew port val (s, e) = Inr (s', e') \<Longrightarrow> irq_inv s \<Longrightarrow> irq_inv s'"
  by (auto simp: esdi_writew_def irq_inv_def Let_def split: if_splits)

lemma step_irq_inv: "step hw a (s, e) = Inr (s', e') \<Longrightarrow> irq_inv s \<Longrightarrow> irq_inv s'"
proof (cases a)
  case (Io_read port)
  then show "step hw a (s, e) = Inr (s', e') \<Longrightarrow> irq_inv s \<Longrightarrow> irq_inv s'"
    using esdi_read_irq_inv [of s port] by auto
next
  case (Io_write port val)
  then show "step hw a (s, e) = Inr (s', e') \<Longrightarrow> irq_inv s \<Longrightarrow> irq_inv s'"
    using esdi_write_irq_inv by auto
next
  case (Io_readw port)
  then show "step hw a (s, e) = Inr (s', e') \<Longrightarrow> irq_inv s \<Longrightarrow> irq_inv s'"
    using esdi_readw_irq_inv by (auto split: sum.splits)
next
  case (Io_writew port val)
  then show "step hw a (s, e) = Inr (s', e') \<Longrightarrow> irq_inv s \<Longrightarrow> irq_inv s'"
    using esdi_writew_irq_inv by auto
next
  case Io_callback
  then show "step hw a (s, e) = Inr (s', e') \<Longrightarrow> irq_inv s \<Longrightarrow> irq_inv s'"
    using esdi_callback_irq_inv by (auto simp: timer_fire_def)
qed

lemma run_reachable:
  "run hw as (s, e) = Inr (s', e') \<Longrightarrow> reachable s \<Longrightarrow> reachable s'"
proof (induction as arbitrary: s e)
  case Nil
  then show ?case by simp
next
  case (Cons a as)
  from Cons.prems(1) obtain s1 e1 where st: "step hw a (s, e) = Inr (s1, e1)"
    and rest: "run hw as (s1, e1) = Inr (s', e')"
    by (auto split: sum.splits)
  from Cons.prems(2) st have "reachable s1" by (rule reachable_step)
  with rest show ?case by (rule Cons.IH)
qed

text \<open>The queues stay within their arrays in every reachable state.\<close>

lemma queue_effect_ok: "queue_effect s s' \<Longrightarrow> queues_ok s \<Longrightarrow> queues_ok s'"
  by (auto simp: queue_effect_def queues_ok_def)

lemma queue_effect_same: "same_regs s s' \<Longrightarrow> queue_effect s s'"
  by (simp add: queue_effect_def same_regs_fields)

lemma queue_effect_error:
  "cmd_unsupported (s1, e1) = (s', e') \<Longrightarrow> queue_effect s1 s'"
  "device_not_present (s1, e1) = (s', e') \<Longrightarrow> queue_effect s1 s'"
  "rba_out_of_range (s1, e1) = (s', e') \<Longrightarrow> queue_effect s1 s'"
  "defective_block (s1, e1) = (s', e') \<Longrightarrow> queue_effect s1 s'"
  by (auto simp: queue_effect_def error_defs set_irq_def)

lemma queue_effect_latch: "latch_irq st irq (s1, e1) = (s', e') \<Longrightarrow> queue_effect s1 s'"
  by (auto simp: queue_effect_def latch_irq_def set_irq_def)

lemma queue_effect_finish: "finish_command (s1, e1) = (s', e') \<Longrightarrow> queue_effect s1 s'"
  by (auto simp: queue_effect_def finish_command_def complete_command_status_def latch_irq_def
        set_irq_def)

lemma queue_effect_start: "start_transfer irq (s1, e1) = (s', e') \<Longrightarrow> queue_effect s1 s'"
  by (auto simp: queue_effect_def start_transfer_def latch_irq_def set_irq_def split: prod.splits)

lemma xfer_result_queue:
  assumes fr: "xfer_frame s e r"
    and res: "(case r of
                 Xfer_done s1 e1 t \<Rightarrow>
                   Inr (s1\<lparr>status := STATUS_CMD_IN_PROGRESS, cmd_state := 2\<rparr>, f t e1)
               | Xfer_nodata s1 e1 t \<Rightarrow> Inr (s1, g t e1)
               | Xfer_defective s1 e1 \<Rightarrow> Inr (defective_block (s1, e1))
               | Xfer_fatal \<Rightarrow> Inl err1
               | Xfer_bounds \<Rightarrow> Inl err2) = Inr (s', e')"
  shows "queue_effect s s'"
proof (cases r)
  case (Xfer_done s1 e1 t)
  with res fr show ?thesis by (auto simp: queue_effect_def same_regs_fields)
next
  case (Xfer_nodata s1 e1 t)
  with res fr show ?thesis by (auto simp: queue_effect_same)
next
  case (Xfer_defective s1 e1)
  with res fr have "queue_effect s s1" and "queue_effect s1 s'"
    by (auto simp: queue_effect_same queue_effect_error(4))
  then show ?thesis by (auto simp: queue_effect_def)
qed (use res in simp_all)

lemmas queue_effect_dests = queue_effect_error queue_effect_latch queue_effect_finish
  queue_effect_start

lemma cb_read_queue: "cb_read hw (s, e) = Inr (s', e') \<Longrightarrow> queue_effect s s'"
  unfolding cb_read_def Let_def
  by (auto split: if_splits dest!: queue_effect_dests xfer_result_queue [OF read_sectors_frame]
        simp: queue_effect_def)

lemma cb_write_queue: "cb_write hw (s, e) = Inr (s', e') \<Longrightarrow> queue_effect s s'"
  unfolding cb_write_def Let_def
  by (auto split: if_splits dest!: queue_effect_dests xfer_result_queue [OF write_sectors_frame]
        simp: queue_effect_def)

lemma cb_read_verify_queue: "cb_read_verify hw (s, e) = Inr (s', e') \<Longrightarrow> queue_effect s s'"
  unfolding cb_read_verify_def Let_def
  by (auto split: if_splits dest!: queue_effect_dests
        simp: queue_effect_def)

lemma cb_seek_queue: "cb_seek hw (s, e) = Inr (s', e') \<Longrightarrow> queue_effect s s'"
  unfolding cb_seek_def Let_def
  by (auto split: if_splits dest!: queue_effect_dests
        simp: queue_effect_def)

lemma cb_park_heads_queue: "cb_park_heads hw (s, e) = Inr (s', e') \<Longrightarrow> queue_effect s s'"
  unfolding cb_park_heads_def Let_def
  by (auto split: if_splits dest!: queue_effect_dests
        simp: queue_effect_def)

lemma cb_get_dev_status_queue: "cb_get_dev_status (s, e) = Inr (s', e') \<Longrightarrow> queue_effect s s'"
  unfolding cb_get_dev_status_def Let_def
  by (auto split: if_splits dest!: queue_effect_dests
        simp: queue_effect_def)

lemma cb_get_dev_config_queue: "cb_get_dev_config (s, e) = Inr (s', e') \<Longrightarrow> queue_effect s s'"
  unfolding cb_get_dev_config_def Let_def
  by (auto split: if_splits dest!: queue_effect_dests
        simp: queue_effect_def)

lemma cb_get_pos_info_queue: "cb_get_pos_info (s, e) = Inr (s', e') \<Longrightarrow> queue_effect s s'"
  unfolding cb_get_pos_info_def Let_def
  by (auto split: if_splits dest!: queue_effect_dests
        simp: queue_effect_def)

lemma cb_write_buffer_queue: "cb_write_buffer (s, e) = Inr (s', e') \<Longrightarrow> queue_effect s s'"
  unfolding cb_write_buffer_def Let_def
  by (auto split: if_splits dest!: queue_effect_dests xfer_result_queue [OF write_buffer_sectors_frame]
        simp: queue_effect_def)

lemma cb_read_buffer_queue: "cb_read_buffer (s, e) = Inr (s', e') \<Longrightarrow> queue_effect s s'"
  unfolding cb_read_buffer_def Let_def
  by (auto split: if_splits dest!: queue_effect_dests xfer_result_queue [OF read_buffer_sectors_frame]
        simp: queue_effect_def)

lemma cb_0x12_queue: "cb_0x12 (s, e) = Inr (s', e') \<Longrightarrow> queue_effect s s'"
  unfolding cb_0x12_def Let_def
  by (auto split: if_splits dest!: queue_effect_dests
        simp: queue_effect_def)

lemma cb_format_queue: "cb_format hw (s, e) = Inr (s', e') \<Longrightarrow> queue_effect s s'"
  unfolding cb_format_def Let_def
  by (auto split: if_splits prod.splits dest!: queue_effect_dests
        simp: queue_effect_def)

lemma esdi_callback_queues_ok:
  assumes "esdi_callback hw (s, e) = Inr (s', e')" and "queues_ok s"
  shows "queues_ok s'"
proof (cases "in_reset s")
  case True
  with assms show ?thesis by (auto simp: esdi_callback_def queues_ok_def)
next
  case False
  with assms(1) have "queue_effect s s'"
    unfolding esdi_callback_def
    by (auto split: if_splits
          intro: cb_read_queue cb_write_queue cb_read_verify_queue cb_seek_queue
            cb_park_heads_queue cb_get_dev_status_queue cb_get_dev_config_queue
            cb_get_pos_info_queue cb_write_buffer_queue cb_read_buffer_queue cb_0x12_queue
            cb_format_queue)
  then show ?thesis using assms(2) by (rule queue_effect_ok)
qed

lemma esdi_read_queues_ok: "queues_ok s \<Longrightarrow> queues_ok (snd (esdi_read port s))"
  by (auto simp: esdi_read_def queues_ok_def)

lemma esdi_write_queues_ok:
  "esdi_write port val (s, e) = Inr (s', e') \<Longrightarrow> queues_ok s \<Longrightarrow> queues_ok s'"
  by (auto simp: esdi_write_def queues_ok_def clear_irq_def update_irq_def
        Let_def split: if_splits)

lemma esdi_readw_queues_ok:
  "esdi_readw port s = Inr (w, s') \<Longrightarrow> queues_ok s \<Longrightarrow> queues_ok s'"
  by (auto simp: esdi_readw_def queues_ok_def Let_def split: if_splits)

lemma esdi_writew_queues_ok:
  "esdi_writew port val (s, e) = Inr (s', e') \<Longrightarrow> queues_ok s \<Longrightarrow> queues_ok s'"
  by (auto simp: esdi_writew_def queues_ok_def Let_def nth_list_update split: if_splits)

lemma step_queues_ok: "step hw a (s, e) = Inr (s', e') \<Longrightarrow> queues_ok s \<Longrightarrow> queues_ok s'"
proof (cases a)
  case (Io_read port)
  then show "step hw a (s, e) = Inr (s', e') \<Longrightarrow> queues_ok s \<Longrightarrow> queues_ok s'"
    using esdi_read_queues_ok [of s port] by auto
next
  case (Io_write port val)
  then show "step hw a (s, e) = Inr (s', e') \<Longrightarrow> queues_ok s \<Longrightarrow> queues_ok s'"
    using esdi_write_queues_ok by auto
next
  case (Io_readw port)
  then show "step hw a (s, e) = Inr (s', e') \<Longrightarrow> queues_ok s \<Longrightarrow> queues_ok s'"
    using esdi_readw_queues_ok by (auto split: sum.splits)
next
  case (Io_writew port val)
  then show "step hw a (s, e) = Inr (s', e') \<Longrightarrow> queues_ok s \<Longrightarrow> queues_ok s'"
    using esdi_writew_queues_ok by auto
next
  case Io_callback
  then show "step hw a (s, e) = Inr (s', e') \<Longrightarrow> queues_ok s \<Longrightarrow> queues_ok s'"
    using esdi_callback_queues_ok by (auto simp: timer_fire_def)
qed

lemma reachable_queues_ok: "reachable s \<Longrightarrow> queues_ok s"
proof (induction rule: reachable.induct)
  case (reachable_init integrated ds)
  show ?case by (simp add: queues_ok_def esdi_init_def)
next
  case (reachable_step s hw a e s' e')
  then show ?case by (auto intro: step_queues_ok)
qed

lemma error_routines_report:
  assumes "length (status_data s1) = 256"
    and "cmd_dev s1 = cmd_dev s" "command s1 = command s" "cmd_state s1 = cmd_state s"
    and "basic_ctrl s1 = basic_ctrl s" "timer e1 = timer e" "irq_line e1 = irq_line e"
  shows "failure_reported 0x0f03 0x0002 (s, e) (cmd_unsupported (s1, e1))"
    and "failure_reported 0x0c11 0x000b (s, e) (device_not_present (s1, e1))"
    and "failure_reported 0x0e01 0x0007 (s, e) (rba_out_of_range (s1, e1))"
    and "failure_reported 0x0e01 0x0009 (s, e) (defective_block (s1, e1))"
  using assms
  by (simp_all add: failure_reported_def error_defs set_irq_def picint_common_def)

lemma esdi_callback_dispatch:
  assumes "\<not> in_reset s"
  shows "command s = CMD_READ \<Longrightarrow> esdi_callback hw (s, e) = cb_read hw (s, e)"
    and "command s = 0x15 \<Longrightarrow> esdi_callback hw (s, e) = cb_read hw (s, e)"
    and "command s = CMD_WRITE \<Longrightarrow> esdi_callback hw (s, e) = cb_write hw (s, e)"
    and "command s = CMD_WRITE_VERIFY \<Longrightarrow> esdi_callback hw (s, e) = cb_write hw (s, e)"
    and "command s = CMD_READ_VERIFY \<Longrightarrow> esdi_callback hw (s, e) = cb_read_verify hw (s, e)"
    and "command s = CMD_SEEK \<Longrightarrow> esdi_callback hw (s, e) = cb_seek hw (s, e)"
    and "command s = CMD_PARK_HEADS \<Longrightarrow> esdi_callback hw (s, e) = cb_park_heads hw (s, e)"
    and "command s = CMD_GET_DEV_STATUS \<Longrightarrow> esdi_callback hw (s, e) = cb_get_dev_status (s, e)"
    and "command s = CMD_GET_DEV_CONFIG \<Longrightarrow> esdi_callback hw (s, e) = cb_get_dev_config (s, e)"
    and "command s = CMD_GET_POS_INFO \<Longrightarrow> esdi_callback hw (s, e) = cb_get_pos_info (s, e)"
    and "command s = 0x10 \<Longrightarrow> esdi_callback hw (s, e) = cb_write_buffer (s, e)"
    and "command s = 0x11 \<Longrightarrow> esdi_callback hw (s, e) = cb_read_buffer (s, e)"
    and "command s = 0x12 \<Longrightarrow> esdi_callback hw (s, e) = cb_0x12 (s, e)"
    and "command s = CMD_FORMAT_UNIT \<Longrightarrow> esdi_callback hw (s, e) = cb_format hw (s, e)"
    and "command s = CMD_FORMAT_PREPARE \<Longrightarrow> esdi_callback hw (s, e) = cb_format hw (s, e)"
  using assms by (simp_all add: esdi_callback_def)

lemma drive_only_unsupported:
  assumes "not_a_drive s"
  shows "cb_read hw (s, e) = Inr (cmd_unsupported (s, e))"
    and "cb_write hw (s, e) = Inr (cmd_unsupported (s, e))"
    and "cb_read_verify hw (s, e) = Inr (cmd_unsupported (s, e))"
    and "cb_seek hw (s, e) = Inr (cmd_unsupported (s, e))"
    and "cb_park_heads hw (s, e) = Inr (cmd_unsupported (s, e))"
    and "cb_get_dev_status (s, e) = Inr (cmd_unsupported (s, e))"
    and "cb_format hw (s, e) = Inr (cmd_unsupported (s, e))"
    and "cmd_dev s \<noteq> ATTN_HOST_ADAPTER \<Longrightarrow>
         cb_get_dev_config (s, e) = Inr (cmd_unsupported (s, e))"
  using assms
  by (simp_all add: cb_read_def cb_write_def cb_read_verify_def cb_seek_def cb_park_heads_def
        cb_get_dev_status_def cb_get_dev_config_def cb_format_def)

lemma adapter_only_unsupported:
  assumes "cmd_dev s \<noteq> ATTN_HOST_ADAPTER"
  shows "cb_get_pos_info (s, e) = Inr (cmd_unsupported (s, e))"
    and "cb_write_buffer (s, e) = Inr (cmd_unsupported (s, e))"
    and "cb_read_buffer (s, e) = Inr (cmd_unsupported (s, e))"
    and "cb_0x12 (s, e) = Inr (cmd_unsupported (s, e))"
  using assms
  by (simp_all add: cb_get_pos_info_def cb_write_buffer_def cb_read_buffer_def cb_0x12_def)

lemma drive_not_present:
  assumes "\<not> not_a_drive s" and "\<not> present (selected_drive s)"
  shows "cb_read hw (s, e) = Inr (device_not_present (s, e))"
    and "cb_write hw (s, e) = Inr (device_not_present (s, e))"
    and "cb_read_verify hw (s, e) = Inr (device_not_present (s, e))"
    and "cb_seek hw (s, e) = Inr (device_not_present (s, e))"
    and "cb_park_heads hw (s, e) = Inr (device_not_present (s, e))"
    and "cb_get_dev_status (s, e) = Inr (device_not_present (s, e))"
    and "cb_format hw (s, e) = Inr (device_not_present (s, e))"
    and "cb_get_dev_config (s, e) = Inr (device_not_present (s, e))"
proof -
  have "cmd_dev s \<noteq> ATTN_HOST_ADAPTER" using assms(1) by (auto simp: not_a_drive_def)
  with assms
  show "cb_read hw (s, e) = Inr (device_not_present (s, e))"
    and "cb_write hw (s, e) = Inr (device_not_present (s, e))"
    and "cb_read_verify hw (s, e) = Inr (device_not_present (s, e))"
    and "cb_seek hw (s, e) = Inr (device_not_present (s, e))"
    and "cb_park_heads hw (s, e) = Inr (device_not_present (s, e))"
    and "cb_get_dev_status (s, e) = Inr (device_not_present (s, e))"
    and "cb_format hw (s, e) = Inr (device_not_present (s, e))"
    and "cb_get_dev_config (s, e) = Inr (device_not_present (s, e))"
    by (simp_all add: cb_read_def cb_write_def cb_read_verify_def cb_seek_def cb_park_heads_def
          cb_get_dev_status_def cb_get_dev_config_def cb_format_def)
qed

lemma unsupported_result:
  assumes "\<not> in_reset s" and "detects_unsupported s"
  shows "esdi_callback hw (s, e) = Inr (cmd_unsupported (s, e))"
  using assms(2)
  unfolding detects_unsupported_def drive_command_def adapter_command_def
  by (elim disjE conjE)
     (simp_all add: esdi_callback_dispatch [OF assms(1)] drive_only_unsupported
        adapter_only_unsupported)

lemma not_present_result:
  assumes "\<not> in_reset s" and "detects_not_present s"
  shows "esdi_callback hw (s, e) = Inr (device_not_present (s, e))"
  using assms(2)
  unfolding detects_not_present_def drive_command_def
  by (elim disjE conjE)
     (simp_all add: esdi_callback_dispatch [OF assms(1)] drive_not_present)

lemma out_of_range_result:
  assumes "\<not> in_reset s" and "detects_out_of_range hw s"
  shows "esdi_callback hw (s, e) =
           Inr (rba_out_of_range
                  (if command s = CMD_SEEK then s else transfer_setup s, e))"
  using assms(2)
  unfolding detects_out_of_range_def
  by (elim disjE conjE)
     (simp_all add: esdi_callback_dispatch [OF assms(1)] cb_read_def cb_write_def
        cb_read_verify_def cb_seek_def Let_def transfer_setup_def)

lemma is_defective_cases: "is_defective r \<Longrightarrow> \<exists>s1 e1. r = Xfer_defective s1 e1"
  by (cases r) simp_all

lemma defective_result:
  assumes "\<not> in_reset s" and "detects_defective hw s e"
  shows "\<exists>s1 e1. esdi_callback hw (s, e) = Inr (defective_block (s1, e1)) \<and>
                 same_regs s s1 \<and> same_lines e e1"
proof -
  let ?d = "selected_drive s"
  from assms(2) have ok: "\<not> not_a_drive s" "present ?d" "cmd_state s = 1"
    "basic_ctrl s AND CTRL_DMA_ENA \<noteq> 0"
    by (simp_all add: detects_defective_def)
  from assms(2) consider
      (rd) "command s = CMD_READ \<or> command s = 0x15" "is_defective (read_sectors hw ?d s e 0)"
    | (wr) "command s = CMD_WRITE \<or> command s = CMD_WRITE_VERIFY"
        "is_defective (write_sectors hw ?d s e 0)"
    by (auto simp: detects_defective_def)
  then show ?thesis
  proof cases
    case rd
    from is_defective_cases [OF rd(2)] obtain s1 e1
      where r: "read_sectors hw ?d s e 0 = Xfer_defective s1 e1" by blast
    have fr: "same_regs s s1 \<and> same_lines e e1"
      using read_sectors_frame [of s e hw ?d 0] r by simp
    have "esdi_callback hw (s, e) = cb_read hw (s, e)"
      using rd(1) esdi_callback_dispatch(1,2) [OF assms(1)] by blast
    also have "\<dots> = Inr (defective_block (s1, e1))"
      using ok r by (simp add: cb_read_def)
    finally show ?thesis using fr by blast
  next
    case wr
    from is_defective_cases [OF wr(2)] obtain s1 e1
      where r: "write_sectors hw ?d s e 0 = Xfer_defective s1 e1" by blast
    have fr: "same_regs s s1 \<and> same_lines e e1"
      using write_sectors_frame [of s e hw ?d 0] r by simp
    have "esdi_callback hw (s, e) = cb_write hw (s, e)"
      using wr(1) esdi_callback_dispatch(3,4) [OF assms(1)] by blast
    also have "\<dots> = Inr (defective_block (s1, e1))"
      using ok r by (simp add: cb_write_def)
    finally show ?thesis using fr by blast
  qed
qed

lemma reached_run: "run hw as (adapter_0, e) = Inr y \<Longrightarrow> reached (run hw as (adapter_0, e))"
proof -
  assume r: "run hw as (adapter_0, e) = Inr y"
  obtain s' e' where y: "y = (s', e')" by (cases y)
  have "reachable adapter_0" unfolding adapter_0_def by (rule reachable_init)
  with r y have "reachable s'" using run_reachable by blast
  with r y show ?thesis by (simp add: reached_def)
qed

lemma dma_ready_replicate_append [simp]:
  "v \<noteq> DMA_NODATA \<Longrightarrow> dma_ready (replicate n v @ ys) = n + dma_ready ys"
  by (induction n) (simp_all add: dma_ready_simps)

lemma dma_ready_replicate [simp]: "v \<noteq> DMA_NODATA \<Longrightarrow> dma_ready (replicate n v) = n"
  using dma_ready_replicate_append [of v n "[]"] by (simp add: dma_ready_simps)

lemmas loop_eval = read_sectors.simps write_sectors.simps load_sector_def hdd_image_read_def
  hdd_image_write_def xfer_to_dma_eq xfer_from_dma_eq dma_ready_simps
  esdi_mca_get_xfer_time_def Let_def word_le_nat_alt


section \<open>The claims\<close>

subsection \<open>Address range check of the transfer commands\<close>

text \<open>
  Claim C2. For read, write, read-verify and write-verify on a present drive, in the
  setup phase, with the drive's total sector count \<open>sectors\<close> as \<^verbatim>\<open>esdi_init\<close> took it
  from the image: when the decoded block address plus the sector count exceeds the
  total, the callback ends in the address-out-of-range status block (words 0x0e01 and
  0x0007), latches the command-complete-failure interrupt code, leaves the phase and the
  timer as they were and performs no image operation; when the sum is within the total,
  the callback goes on to phase 1, writes nothing to the status queue and performs no
  image operation.
\<close>

theorem C2_address_range:
  assumes nr: "\<not> in_reset s"
    and cmd: "command s = CMD_READ \<or> command s = CMD_WRITE \<or> command s = CMD_READ_VERIFY \<or>
              command s = CMD_WRITE_VERIFY"
    and ph: "cmd_state s = 0"
    and dr: "\<not> not_a_drive s" "present (selected_drive s)"
    and len: "length (status_data s) = 256"
    and tot: "last_sector hw (hdd_num (selected_drive s)) = word_of_int (sectors (selected_drive s))"
             "0 \<le> sectors (selected_drive s)" "sectors (selected_drive s) < 4294967296"
  shows "(sectors (selected_drive s) < uint (decode_rba s) + uint (cmd_data s ! 1) \<longrightarrow>
           (\<exists>s' e'. esdi_callback hw (s, e) = Inr (s', e') \<and>
              status_len s' = 9 \<and> status_data s' ! 1 = 0x0e01 \<and> status_data s' ! 2 = 0x0007 \<and>
              status s' = STATUS_IRQ OR STATUS_STATUS_OUT_FULL \<and>
              irq_status s' = word_of_int (cmd_dev s OR IRQ_CMD_COMPLETE_FAILURE) \<and>
              irq_in_progress s' \<and> irq_ena_disable s' \<and> cmd_state s' = 0 \<and>
              timer e' = timer e \<and> disk e' = disk e \<and> disk_log e' = disk_log e \<and>
              dma_rd e' = dma_rd e \<and> dma_wr e' = dma_wr e \<and> dma_out e' = dma_out e))
       \<and> (uint (decode_rba s) + uint (cmd_data s ! 1) \<le> sectors (selected_drive s) \<longrightarrow>
           (\<exists>s' e'. esdi_callback hw (s, e) = Inr (s', e') \<and>
              cmd_state s' = 1 \<and> status_len s' = status_len s \<and>
              status_data s' = status_data s \<and>
              disk e' = disk e \<and> disk_log e' = disk_log e))"
proof -
  let ?d = "selected_drive s"
  let ?n = "sectors ?d"
  let ?far = "?n < uint (decode_rba s) + uint (cmd_data s ! 1)"
  have b1: "rba_beyond_last hw ?d
              (s\<lparr>rba := decode_rba s, sector_pos := 0, sector_count := unat (cmd_data s ! 1)\<rparr>)
            \<longleftrightarrow> ?far"
    by (rule beyond_iff [OF _ _ tot]) simp_all
  have b2: "rba_beyond_last hw ?d
              (s\<lparr>rba := decode_rba s, sector_count := unat (cmd_data s ! 1)\<rparr>) \<longleftrightarrow> ?far"
    by (rule beyond_iff [OF _ _ tot]) simp_all
  from cmd consider (rd) "command s = CMD_READ" | (wr) "command s = CMD_WRITE"
    | (rv) "command s = CMD_READ_VERIFY" | (wv) "command s = CMD_WRITE_VERIFY" by blast
  then show ?thesis
  proof cases
    case rd
    then show ?thesis using nr ph dr len b1
      by (simp add: esdi_callback_def cb_read_def Let_def error_defs irq_defs)
  next
    case wr
    then show ?thesis using nr ph dr len b1
      by (simp add: esdi_callback_def cb_write_def Let_def error_defs irq_defs)
  next
    case rv
    then show ?thesis using nr ph dr len b2
      by (simp add: esdi_callback_def cb_read_verify_def Let_def error_defs irq_defs)
  next
    case wv
    then show ?thesis using nr ph dr len b1
      by (simp add: esdi_callback_def cb_write_def Let_def error_defs irq_defs)
  qed
qed

theorem C2_address_range_witness:
  "(\<exists>s' e'. esdi_callback hw_1000 (read_cmd 998 5, env_idle) = Inr (s', e') \<and>
      status_len s' = 9 \<and> status_data s' ! 1 = 0x0e01 \<and> status_data s' ! 2 = 0x0007 \<and>
      status s' = STATUS_IRQ OR STATUS_STATUS_OUT_FULL \<and>
      irq_status s' = word_of_int (cmd_dev (read_cmd 998 5) OR IRQ_CMD_COMPLETE_FAILURE) \<and>
      irq_in_progress s' \<and> irq_ena_disable s' \<and> cmd_state s' = 0 \<and>
      timer e' = timer env_idle \<and> disk e' = disk env_idle \<and> disk_log e' = disk_log env_idle \<and>
      dma_rd e' = dma_rd env_idle \<and> dma_wr e' = dma_wr env_idle \<and> dma_out e' = dma_out env_idle) \<and>
   (\<exists>s' e'. esdi_callback hw_1000 (read_cmd 998 2, env_idle) = Inr (s', e') \<and>
      cmd_state s' = 1 \<and> status_len s' = status_len (read_cmd 998 2) \<and>
      status_data s' = status_data (read_cmd 998 2) \<and>
      disk e' = disk env_idle \<and> disk_log e' = disk_log env_idle)"
  using C2_address_range [of "read_cmd 998 5" hw_1000 env_idle]
        C2_address_range [of "read_cmd 998 2" hw_1000 env_idle]
  by (simp add: read_cmd_def machine_defs select_defs)

subsection \<open>The four guest-visible errors\<close>

text \<open>
  Claim C5. In every command and phase where the callback detects command-not-supported,
  device-not-present, address-out-of-range or defective-block, it returns the status
  block of that error, with word pairs (0x0f03, 0x0002), (0x0c11, 0x000b),
  (0x0e01, 0x0007) and (0x0e01, 0x0009), all different; the command and its phase stay
  as they were and no callback is scheduled, so no later phase runs; the
  command-complete-failure code is latched in the interrupt status, the in-progress flag
  and the adapter's interrupt request are set by \<^verbatim>\<open>set_irq\<close>, which asserts line 14
  when interrupts are enabled in the control register.
\<close>

theorem C5_guest_visible_errors:
  assumes nr: "\<not> in_reset s" and len: "length (status_data s) = 256"
  shows "(detects_unsupported s \<longrightarrow>
            (\<exists>y. esdi_callback hw (s, e) = Inr y \<and> failure_reported 0x0f03 0x0002 (s, e) y))
       \<and> (detects_not_present s \<longrightarrow>
            (\<exists>y. esdi_callback hw (s, e) = Inr y \<and> failure_reported 0x0c11 0x000b (s, e) y))
       \<and> (detects_out_of_range hw s \<longrightarrow>
            (\<exists>y. esdi_callback hw (s, e) = Inr y \<and> failure_reported 0x0e01 0x0007 (s, e) y))
       \<and> (detects_defective hw s e \<longrightarrow>
            (\<exists>y. esdi_callback hw (s, e) = Inr y \<and> failure_reported 0x0e01 0x0009 (s, e) y))
       \<and> distinct [(0x0f03 :: u16, 0x0002), (0x0c11, 0x000b), (0x0e01, 0x0007), (0x0e01, 0x0009 :: u16)]"
proof (intro conjI impI)
  assume "detects_unsupported s"
  then show "\<exists>y. esdi_callback hw (s, e) = Inr y \<and> failure_reported 0x0f03 0x0002 (s, e) y"
    using unsupported_result [OF nr] error_routines_report(1) [OF len, of s e e] by simp
next
  assume "detects_not_present s"
  then show "\<exists>y. esdi_callback hw (s, e) = Inr y \<and> failure_reported 0x0c11 0x000b (s, e) y"
    using not_present_result [OF nr] error_routines_report(2) [OF len, of s e e] by simp
next
  assume d: "detects_out_of_range hw s"
  let ?s1 = "if command s = CMD_SEEK then s else transfer_setup s"
  have "failure_reported 0x0e01 0x0007 (s, e) (rba_out_of_range (?s1, e))"
    by (rule error_routines_report(3)) (simp_all add: transfer_setup_def len)
  then show "\<exists>y. esdi_callback hw (s, e) = Inr y \<and> failure_reported 0x0e01 0x0007 (s, e) y"
    using out_of_range_result [OF nr d] by simp
next
  assume d: "detects_defective hw s e"
  from defective_result [OF nr d] obtain s1 e1
    where r: "esdi_callback hw (s, e) = Inr (defective_block (s1, e1))"
      and fr: "same_regs s s1" "same_lines e e1" by blast
  have "failure_reported 0x0e01 0x0009 (s, e) (defective_block (s1, e1))"
    by (rule error_routines_report(4))
       (use fr len in \<open>simp_all add: same_regs_fields same_lines_def\<close>)
  with r show "\<exists>y. esdi_callback hw (s, e) = Inr y \<and> failure_reported 0x0e01 0x0009 (s, e) y"
    by simp
next
  show "distinct [(0x0f03 :: u16, 0x0002), (0x0c11, 0x000b), (0x0e01, 0x0007), (0x0e01, 0x0009 :: u16)]"
    by simp
qed

theorem C5_guest_visible_errors_witness:
  "(\<exists>y. esdi_callback hw_bad (adapter_0\<lparr>in_reset := False, command := CMD_GET_POS_INFO\<rparr>, env_idle) = Inr y \<and>
        failure_reported 0x0f03 0x0002 (adapter_0\<lparr>in_reset := False, command := CMD_GET_POS_INFO\<rparr>, env_idle) y) \<and>
   (\<exists>y. esdi_callback hw_bad (adapter_0\<lparr>in_reset := False, command := CMD_SEEK, cmd_dev := ATTN_DEVICE_1\<rparr>, env_idle) = Inr y \<and>
        failure_reported 0x0c11 0x000b (adapter_0\<lparr>in_reset := False, command := CMD_SEEK, cmd_dev := ATTN_DEVICE_1\<rparr>, env_idle) y) \<and>
   (\<exists>y. esdi_callback hw_bad (read_cmd 998 5, env_idle) = Inr y \<and>
        failure_reported 0x0e01 0x0007 (read_cmd 998 5, env_idle) y) \<and>
   (\<exists>y. esdi_callback hw_bad (adapter_0\<lparr>in_reset := False, command := CMD_READ, cmd_state := 1,
                                      basic_ctrl := CTRL_DMA_ENA, rba := 3, sector_count := 1\<rparr>, env_idle) = Inr y \<and>
        failure_reported 0x0e01 0x0009 (adapter_0\<lparr>in_reset := False, command := CMD_READ, cmd_state := 1,
                                      basic_ctrl := CTRL_DMA_ENA, rba := 3, sector_count := 1\<rparr>, env_idle) y)"
  using C5_guest_visible_errors [of "adapter_0\<lparr>in_reset := False, command := CMD_GET_POS_INFO\<rparr>" hw_bad env_idle]
        C5_guest_visible_errors [of "adapter_0\<lparr>in_reset := False, command := CMD_SEEK, cmd_dev := ATTN_DEVICE_1\<rparr>" hw_bad env_idle]
        C5_guest_visible_errors [of "read_cmd 998 5" hw_bad env_idle]
        C5_guest_visible_errors [of "adapter_0\<lparr>in_reset := False, command := CMD_READ, cmd_state := 1,
                                      basic_ctrl := CTRL_DMA_ENA, rba := 3, sector_count := 1\<rparr>" hw_bad env_idle]
  by (simp add: detects_unsupported_def detects_not_present_def detects_out_of_range_def
        detects_defective_def drive_command_def adapter_command_def transfer_setup_def
        read_cmd_def hw_bad_def machine_defs select_defs read_sectors.simps load_sector_def
        hdd_image_read_def)

subsection \<open>The IRQ bit of the status register\<close>

text \<open>
  Claim C6, as stated: in every reachable state the IRQ bit of the status register is
  set if and only if an interrupt status value is latched and not yet acknowledged by an
  end-of-interrupt request. It fails: after a command has ended in an error (the failure
  code 0x0c is latched, the in-progress flag is set, no end-of-interrupt was written), a
  read of the interrupt status register clears the bit.
\<close>

theorem C6_irq_bit_counterexample:
  "reached (run hw_1000 unsupported_script (adapter_0, env_idle)) \<and>
   status_of (run hw_1000 unsupported_script (adapter_0, env_idle)) AND STATUS_IRQ = 0 \<and>
   in_progress_of (run hw_1000 unsupported_script (adapter_0, env_idle)) \<and>
   irq_status_of (run hw_1000 unsupported_script (adapter_0, env_idle)) = 0x0c"
proof -
  have ex: "\<exists>y. run hw_1000 unsupported_script (adapter_0, env_idle) = Inr y"
    by (simp add: unsupported_script_def handler_defs cb_get_pos_info_def irq_defs error_defs
          machine_defs)
  then obtain y where "run hw_1000 unsupported_script (adapter_0, env_idle) = Inr y" ..
  then have "reached (run hw_1000 unsupported_script (adapter_0, env_idle))"
    by (rule reached_run)
  moreover have
    "status_of (run hw_1000 unsupported_script (adapter_0, env_idle)) AND STATUS_IRQ = 0 \<and>
     in_progress_of (run hw_1000 unsupported_script (adapter_0, env_idle)) \<and>
     irq_status_of (run hw_1000 unsupported_script (adapter_0, env_idle)) = 0x0c"
    by (simp add: status_of_def in_progress_of_def irq_status_of_def unsupported_script_def
          handler_defs cb_get_pos_info_def irq_defs error_defs machine_defs)
  ultimately show ?thesis by simp
qed

text \<open>
  Claim C6, amended: in every reachable state, if the IRQ bit is set then an interrupt
  status value is latched that no end-of-interrupt request has acknowledged: the
  in-progress flag is set, or the value is the reset-complete code of the host adapter,
  which the reset sequencer latches without the flag.
\<close>

theorem C6_irq_bit_invariant:
  "reachable s \<Longrightarrow>
   status s AND STATUS_IRQ \<noteq> 0 \<longrightarrow>
     irq_in_progress s \<or> irq_status s = word_of_int (IRQ_HOST_ADAPTER OR IRQ_RESET_COMPLETE)"
proof (induction rule: reachable.induct)
  case (reachable_init integrated ds)
  show ?case by (simp add: esdi_init_def)
next
  case (reachable_step s hw a e s' e')
  then have "irq_inv s'" using step_irq_inv [of hw a s e s' e'] by (simp add: irq_inv_def)
  then show ?case by (simp add: irq_inv_def)
qed

theorem C6_irq_bit_invariant_witness:
  "reached (run hw_1000 [Io_callback] (adapter_0, env_idle)) \<and>
   status_of (run hw_1000 [Io_callback] (adapter_0, env_idle)) AND STATUS_IRQ \<noteq> 0 \<and>
   irq_status_of (run hw_1000 [Io_callback] (adapter_0, env_idle)) = 0xea"
proof -
  obtain s' e' where r: "run hw_1000 [Io_callback] (adapter_0, env_idle) = Inr (s', e')"
    and st: "status s' = 0x0b" "\<not> irq_in_progress s'"
    by (simp add: handler_defs machine_defs)
  have "reachable adapter_0" unfolding adapter_0_def by (rule reachable_init)
  with r have re: "reachable s'" using run_reachable by blast
  from C6_irq_bit_invariant [OF re] st have "irq_status s' = 0xea" by simp
  with r re st show ?thesis
    by (simp add: reached_def status_of_def irq_status_of_def)
qed

subsection \<open>Suspension and resumption of a transfer\<close>

text \<open>
  Claim C1, evaluated on the source. A read of one sector at block 0x100 whose words the
  DMA channel all accepts ends with command-complete-success and the completion status
  block; its word 4 is 0x0100 and its word 5 is 0x0001, since the source stores
  \<^verbatim>\<open>(rba - 1) >> 8\<close> in word 5, so the two words read as low and high half give block
  0x10100, not 0x100. A read of one sector at block 0 that the channel suspends at word
  5 resumes at word 5 of sector 0 and transfers the sector, but the callback that ends
  the transfer has accumulated no time and calls \<^verbatim>\<open>esdi_mca_set_callback\<close> with 0, which
  stops the timer: the adapter stays in phase 2 and no completion status is produced.
\<close>

theorem C1_completion_status_evaluated:
  "irq_status_of (run hw_1000 (read_script 0x100 1 @ [Io_callback])
      (adapter_0, env_dma (replicate 256 0))) = 0x01 \<and>
   status_word 4 (run hw_1000 (read_script 0x100 1 @ [Io_callback])
      (adapter_0, env_dma (replicate 256 0))) = 0x0100 \<and>
   status_word 5 (run hw_1000 (read_script 0x100 1 @ [Io_callback])
      (adapter_0, env_dma (replicate 256 0))) = 0x0001 \<and>
   cursor_of (run hw_1000 (read_script 0 1)
      (adapter_0, env_dma (replicate 5 0 @ [DMA_NODATA] @ replicate 251 0))) = (0, 5) \<and>
   cursor_of (run hw_1000 (read_script 0 1 @ [Io_callback])
      (adapter_0, env_dma (replicate 5 0 @ [DMA_NODATA] @ replicate 251 0))) = (1, 0) \<and>
   phase_of (run hw_1000 (read_script 0 1 @ [Io_callback])
      (adapter_0, env_dma (replicate 5 0 @ [DMA_NODATA] @ replicate 251 0))) = 2 \<and>
   timer_of (run hw_1000 (read_script 0 1 @ [Io_callback])
      (adapter_0, env_dma (replicate 5 0 @ [DMA_NODATA] @ replicate 251 0))) = None"
  by (simp add: irq_status_of_def status_word_def timer_of_def cursor_of_def phase_of_def
        read_script_def env_dma_def handler_defs cb_read_def irq_defs error_defs select_defs
        machine_defs loop_eval)




subsection \<open>The range check of the seek command\<close>

text \<open>
  Claim C10, as stated: whether a seek fails with address-out-of-range depends on the
  state left by the previous command and not on the seek's own operands. It fails: two
  seeks issued to the same freshly reset adapter, to block 5 and to block 2000 of a
  drive of 1000 sectors, end differently, the first with command-complete-success and
  the second, in its second callback, with address-out-of-range.
\<close>

theorem C10_seek_counterexample:
  "irq_status_of (run hw_1000 (seek_script 5) (adapter_0, env_idle)) = 0x01 \<and>
   status_word 1 (run hw_1000 (seek_script 5) (adapter_0, env_idle)) = 0 \<and>
   irq_status_of (run hw_1000 (seek_script 2000) (adapter_0, env_idle)) = 0x0c \<and>
   status_word 1 (run hw_1000 (seek_script 2000) (adapter_0, env_idle)) = 0x0e01 \<and>
   status_word 2 (run hw_1000 (seek_script 2000) (adapter_0, env_idle)) = 0x0007"
  by (simp add: status_word_def irq_status_of_def seek_script_def handler_defs cb_seek_def
        irq_defs error_defs select_defs machine_defs)

text \<open>
  Claim C10, amended: the range check of a seek stands before the switch on the phase
  and runs in each callback. In the first callback (phase 0) it compares the block
  address and the sector count left by the previous command, since the seek's target is
  decoded only afterwards; in the second callback (phase 1) it compares the seek's own
  decoded target plus the sector count left by the previous command.
\<close>

theorem C10_seek_range_check:
  assumes "\<not> in_reset s" and "command s = CMD_SEEK" and "\<not> not_a_drive s"
    and "present (selected_drive s)"
  shows "(cmd_state s = 0 \<longrightarrow>
            esdi_callback hw (s, e) =
              (if rba s + of_nat (sector_count s) > last_sector hw (hdd_num (selected_drive s))
               then Inr (rba_out_of_range (s, e))
               else Inr (s\<lparr>rba := decode_rba s, cmd_state := 1\<rparr>,
                         esdi_mca_set_callback
                           (ESDI_TIME + seek_time hw (hdd_num (selected_drive s)) (decode_rba s)) e)))
       \<and> (cmd_state s = 1 \<longrightarrow>
            esdi_callback hw (s, e) =
              (if rba s + of_nat (sector_count s) > last_sector hw (hdd_num (selected_drive s))
               then Inr (rba_out_of_range (s, e))
               else Inr (finish_command (s, e))))
       \<and> (cmd_state s = 0 \<longrightarrow>
            \<not> rba s + of_nat (sector_count s) > last_sector hw (hdd_num (selected_drive s)) \<longrightarrow>
            (\<exists>s1 e1. esdi_callback hw (s, e) = Inr (s1, e1) \<and>
               (\<forall>e2. esdi_callback hw (s1, e2) =
                  (if decode_rba s + of_nat (sector_count s)
                        > last_sector hw (hdd_num (selected_drive s))
                   then Inr (rba_out_of_range (s1, e2))
                   else Inr (finish_command (s1, e2))))))"
proof -
  have gen: "\<And>s e. \<not> in_reset s \<Longrightarrow> command s = CMD_SEEK \<Longrightarrow> \<not> not_a_drive s \<Longrightarrow>
      present (selected_drive s) \<Longrightarrow>
      esdi_callback hw (s, e) =
        (if rba s + of_nat (sector_count s) > last_sector hw (hdd_num (selected_drive s))
         then Inr (rba_out_of_range (s, e))
         else if cmd_state s = 0 then
           Inr (s\<lparr>rba := decode_rba s, cmd_state := 1\<rparr>,
                esdi_mca_set_callback
                  (ESDI_TIME + seek_time hw (hdd_num (selected_drive s)) (decode_rba s)) e)
         else if cmd_state s = 1 then Inr (finish_command (s, e))
         else Inr (s, e))"
    by (simp add: esdi_callback_def cb_seek_def rba_beyond_last_def Let_def)
  let ?s1 = "s\<lparr>rba := decode_rba s, cmd_state := 1\<rparr>"
  have s1: "\<not> in_reset ?s1" "command ?s1 = CMD_SEEK" "\<not> not_a_drive ?s1"
    "present (selected_drive ?s1)"
    using assms by simp_all
  show ?thesis
    using gen [OF assms, of e] gen [OF s1] by auto
qed

theorem C10_seek_range_check_witness:
  "esdi_callback hw_1000
     (adapter_0\<lparr>in_reset := False, command := CMD_SEEK, cmd_data := [0x4005, 0, 2000, 0]\<rparr>, env_idle)
   = Inr (adapter_0\<lparr>in_reset := False, command := CMD_SEEK, cmd_data := [0x4005, 0, 2000, 0],
                    rba := 2000, cmd_state := 1\<rparr>, env_idle\<lparr>timer := Some 550\<rparr>) \<and>
   esdi_callback hw_1000
     (adapter_0\<lparr>in_reset := False, command := CMD_SEEK, cmd_data := [0x4005, 0, 5, 0],
                rba := 2000, sector_count := 1\<rparr>, env_idle)
   = Inr (rba_out_of_range
            (adapter_0\<lparr>in_reset := False, command := CMD_SEEK, cmd_data := [0x4005, 0, 5, 0],
                       rba := 2000, sector_count := 1\<rparr>, env_idle)) \<and>
   esdi_callback hw_1000
     (adapter_0\<lparr>in_reset := False, command := CMD_SEEK, cmd_data := [0x4005, 0, 2000, 0],
                rba := 2000, cmd_state := 1\<rparr>, env_idle)
   = Inr (rba_out_of_range
            (adapter_0\<lparr>in_reset := False, command := CMD_SEEK, cmd_data := [0x4005, 0, 2000, 0],
                       rba := 2000, cmd_state := 1\<rparr>, env_idle))"
  using C10_seek_range_check [of "adapter_0\<lparr>in_reset := False, command := CMD_SEEK,
            cmd_data := [0x4005, 0, 2000, 0]\<rparr>" hw_1000 env_idle]
        C10_seek_range_check [of "adapter_0\<lparr>in_reset := False, command := CMD_SEEK,
            cmd_data := [0x4005, 0, 5, 0], rba := 2000, sector_count := 1\<rparr>" hw_1000 env_idle]
        C10_seek_range_check [of "adapter_0\<lparr>in_reset := False, command := CMD_SEEK,
            cmd_data := [0x4005, 0, 2000, 0], rba := 2000, cmd_state := 1\<rparr>" hw_1000 env_idle]
  by (simp add: machine_defs select_defs esdi_mca_set_callback_def timer_on_auto_def)

subsection \<open>Command interface register\<close>

text \<open>
  Claim C3. In every reachable state, a word written to the command interface register
  (port offset 0) finds the cursor below 4 and is stored at the cursor. Exactly when the
  cursor then stands at 2 with the length flag of word 0 clear, or at 4 with the flag
  set, the queue is consumed: the cursor returns to 0, \<open>cmd_req_in_progress\<close> is
  cleared, the phase is 0, the opcode is taken from word 0 (a fatal error when the
  target in word 0 is not the latched one), the status is busy and the callback is
  scheduled after \<open>ESDI_TIME\<close>. Otherwise only the word and the cursor change.
\<close>

theorem C3_command_word:
  assumes "reachable s" and "port AND 7 = 0"
  shows "cmd_pos s < 4 \<and>
     esdi_writew port val (s, e) =
     (let q = (cmd_data s)[cmd_pos s := val]; n = cmd_pos s + 1 in
      if (n = 2 \<and> q ! 0 AND CMD_SIZE_4 = 0) \<or> (n = 4 \<and> q ! 0 AND CMD_SIZE_4 \<noteq> 0) then
        (if uint (q ! 0 AND CMD_DEVICE_SEL) \<noteq> cmd_dev s then Inl Fatal_device_mismatch
         else Inr (s\<lparr>cmd_data := q, cmd_pos := 0, cmd_req_in_progress := False,
                      cmd_state := 0, command := uint (q ! 0 AND CMD_MASK),
                      status := STATUS_BUSY, data_pos := 0\<rparr>,
                   e\<lparr>timer := Some ESDI_TIME\<rparr>))
      else Inr (s\<lparr>cmd_data := q, cmd_pos := n\<rparr>, e))"
proof -
  from assms(1) have "queues_ok s" by (rule reachable_queues_ok)
  then have "cmd_pos s < 4" by (simp add: queues_ok_def)
  then show ?thesis using assms(2)
    by (auto simp: esdi_writew_def Let_def esdi_mca_set_callback_def timer_on_auto_def)
qed

theorem C3_command_word_witness:
  "esdi_writew 0x3510 0x0001 (adapter_0, env_idle)
     = Inr (adapter_0\<lparr>cmd_data := [1, 0, 0, 0], cmd_pos := 1\<rparr>, env_idle)
   \<and> esdi_writew 0x3510 0x0005 (adapter_0\<lparr>cmd_data := [1, 0, 0, 0], cmd_pos := 1\<rparr>, env_idle)
     = Inr (adapter_0\<lparr>cmd_data := [1, 5, 0, 0], cmd_pos := 0, cmd_req_in_progress := False,
              cmd_state := 0, command := 1, status := STATUS_BUSY, data_pos := 0\<rparr>,
            env_idle\<lparr>timer := Some ESDI_TIME\<rparr>)
   \<and> esdi_writew 0x3510 0x0005 (adapter_0\<lparr>cmd_data := [0x4001, 0, 0, 0], cmd_pos := 1\<rparr>, env_idle)
     = Inr (adapter_0\<lparr>cmd_data := [0x4001, 5, 0, 0], cmd_pos := 2\<rparr>, env_idle)
   \<and> esdi_writew 0x3510 0x0005 (adapter_0\<lparr>cmd_data := [0x21, 0, 0, 0], cmd_pos := 1\<rparr>, env_idle)
     = Inl Fatal_device_mismatch"
proof -
  have r0: "reachable adapter_0" unfolding adapter_0_def by (rule reachable_init)
  have r1: "reachable (adapter_0\<lparr>cmd_data := [1, 0, 0, 0], cmd_pos := 1\<rparr>)"
    by (rule reachable_step [OF r0, of hw_1000 "Io_writew 0x3510 0x0001" env_idle _ env_idle])
       (simp add: esdi_writew_def adapter_0_def esdi_init_def)
  have r2: "reachable (adapter_0\<lparr>cmd_data := [0x4001, 0, 0, 0], cmd_pos := 1\<rparr>)"
    by (rule reachable_step [OF r0, of hw_1000 "Io_writew 0x3510 0x4001" env_idle _ env_idle])
       (simp add: esdi_writew_def adapter_0_def esdi_init_def)
  have r3: "reachable (adapter_0\<lparr>cmd_data := [0x21, 0, 0, 0], cmd_pos := 1\<rparr>)"
    by (rule reachable_step [OF r0, of hw_1000 "Io_writew 0x3510 0x0021" env_idle _ env_idle])
       (simp add: esdi_writew_def adapter_0_def esdi_init_def)
  show ?thesis
    using C3_command_word [OF r0, of "0x3510" "0x0001" env_idle]
          C3_command_word [OF r1, of "0x3510" "0x0005" env_idle]
          C3_command_word [OF r2, of "0x3510" "0x0005" env_idle]
          C3_command_word [OF r3, of "0x3510" "0x0005" env_idle]
    by (simp add: adapter_0_def esdi_init_def)
qed

subsection \<open>Attention register: command request\<close>

text \<open>
  Claim C4. A write to the attention register (port offset 3) with the command-request
  code, for the host adapter or either drive: with \<open>cmd_req_in_progress\<close> set the write
  is fatal and no state results; otherwise it sets \<open>cmd_req_in_progress\<close>, latches the
  target in \<open>cmd_dev\<close>, sets the busy bit and puts both cursors to 0.
\<close>

theorem C4_command_request:
  assumes "port AND 7 = 3" and "val AND ATTN_REQ_MASK = ATTN_CMD_REQ"
    and "val AND ATTN_DEVICE_SEL = 0xe0 \<or> val AND ATTN_DEVICE_SEL = 0x00 \<or> val AND ATTN_DEVICE_SEL = 0x20"
  shows "esdi_write port val (s, e) =
     (if cmd_req_in_progress s then Inl Fatal_cmd_req_in_progress
      else Inr (s\<lparr>cmd_req_in_progress := True, cmd_dev := uint (val AND ATTN_DEVICE_SEL),
                   status := status s OR STATUS_BUSY, cmd_pos := 0, status_pos := 0\<rparr>, e))"
  using assms by (auto simp: esdi_write_def)

theorem C4_command_request_witness:
  "esdi_write 0x3513 0x21 (adapter_0, env_idle)
     = Inr (adapter_0\<lparr>cmd_req_in_progress := True, cmd_dev := ATTN_DEVICE_1,
              status := STATUS_BUSY, cmd_pos := 0, status_pos := 0\<rparr>, env_idle)
   \<and> esdi_write 0x3513 0x01 (adapter_0\<lparr>cmd_req_in_progress := True, cmd_dev := ATTN_DEVICE_1\<rparr>, env_idle)
     = Inl Fatal_cmd_req_in_progress"
  using C4_command_request [of "0x3513" "0x21" adapter_0 env_idle]
        C4_command_request [of "0x3513" "0x01" "adapter_0\<lparr>cmd_req_in_progress := True, cmd_dev := ATTN_DEVICE_1\<rparr>" env_idle]
  by (simp add: adapter_0_def esdi_init_def)

subsection \<open>Status interface register\<close>

text \<open>
  Claim C7. A read of the status interface register (port offset 0) in a reachable
  state: below the declared length the word at the cursor is returned and the cursor
  advances; when that was the last declared word the status-output-full bit is cleared
  and cursor and length are 0; at or beyond the declared length the result is 0 and
  the state is unchanged.
\<close>

theorem C7_status_pop:
  assumes "reachable s" and "port AND 7 = 0"
  shows "esdi_readw port s =
     (if status_pos s < status_len s then
        Inr (status_data s ! status_pos s,
             if status_pos s + 1 \<ge> status_len s
             then s\<lparr>status := status s AND NOT STATUS_STATUS_OUT_FULL,
                    status_len := 0, status_pos := 0\<rparr>
             else s\<lparr>status_pos := status_pos s + 1\<rparr>)
      else Inr (0, s))"
proof -
  from assms(1) have "queues_ok s" by (rule reachable_queues_ok)
  then have "status_len s \<le> length (status_data s)" by (simp add: queues_ok_def)
  then show ?thesis using assms(2) by (auto simp: esdi_readw_def Let_def)
qed

theorem C7_status_pop_witness:
  "esdi_readw 0x3510 adapter_0 = Inr (0, adapter_0) \<and>
   esdi_readw 0x3510 after_reset
     = Inr (0x01e0, after_reset\<lparr>status := 0x03, status_len := 0, status_pos := 0\<rparr>) \<and>
   (\<exists>s e. run hw_1000 unsupported_script (adapter_0, env_idle) = Inr (s, e) \<and>
      status_pos s = 0 \<and> status_len s = 9 \<and> status_data s ! 0 = 0x090a \<and>
      esdi_readw 0x3510 s = Inr (0x090a, s\<lparr>status_pos := 1\<rparr>))"
proof -
  have r0: "reachable adapter_0" unfolding adapter_0_def by (rule reachable_init)
  have r1: "reachable after_reset"
    by (rule reachable_step [OF r0, of hw_1000 Io_callback env_idle _ env_idle])
       (simp add: after_reset_def handler_defs machine_defs STATUS_LEN_def)
  obtain s e where r: "run hw_1000 unsupported_script (adapter_0, env_idle) = Inr (s, e)"
    and st: "status_pos s = 0" "status_len s = 9" "status_data s ! 0 = 0x090a"
    by (simp add: unsupported_script_def handler_defs cb_get_pos_info_def irq_defs error_defs
          machine_defs)
  from r r0 have r2: "reachable s" by (rule run_reachable)
  from C7_status_pop [OF r2, of "0x3510"] st
  have "esdi_readw 0x3510 s = Inr (0x090a, s\<lparr>status_pos := 1\<rparr>)" by simp
  with r st show ?thesis
    using C7_status_pop [OF r0, of "0x3510"] C7_status_pop [OF r1, of "0x3510"]
    by (simp add: after_reset_def adapter_0_def esdi_init_def)
qed

subsection \<open>Reset\<close>

text \<open>
  Claim C8. In a reachable state, a write to the control register (port offset 2) that
  clears a reset bit that was set puts the adapter in reset with the busy status and
  schedules the callback after 50 times \<open>ESDI_TIME\<close>; when that timer fires the
  reset flag is cleared, the status is IRQ, transfer request and status-out-full, the
  interrupt status is host adapter with reset complete, and the status queue has the
  declared length 1 with the word naming the host adapter.
\<close>

theorem C8_reset_sequence:
  assumes "reachable s" and "port AND 7 = 2"
    and "basic_ctrl s AND CTRL_RESET \<noteq> 0" and "val AND CTRL_RESET = 0"
  shows "\<exists>s1 e1 s2 e2.
           esdi_write port val (s, e) = Inr (s1, e1) \<and>
           in_reset s1 \<and> status s1 = STATUS_BUSY \<and> timer e1 = Some (ESDI_TIME * 50) \<and>
           timer_fire hw (s1, e1) = Inr (s2, e2) \<and>
           \<not> in_reset s2 \<and>
           status s2 = STATUS_IRQ OR STATUS_TRANSFER_REQ OR STATUS_STATUS_OUT_FULL \<and>
           irq_status s2 = word_of_int (IRQ_HOST_ADAPTER OR IRQ_RESET_COMPLETE) \<and>
           status_len s2 = 1 \<and>
           status_data s2 ! 0 = word_of_int (STATUS_LEN 1 OR STATUS_DEVICE_HOST_ADAPTER)"
proof -
  from assms(1) have "queues_ok s" by (rule reachable_queues_ok)
  then have "status_data s \<noteq> []" by (auto simp: queues_ok_def)
  then show ?thesis using assms(2-4)
    by (cases "status_data s")
       (auto simp: esdi_write_def timer_fire_def esdi_callback_def esdi_mca_set_callback_def
          timer_on_auto_def update_irq_def picint_common_def Let_def)
qed

theorem C8_reset_sequence_witness:
  "\<exists>s1 e1 s2 e2.
     esdi_write 0x3512 0x00 (adapter_0\<lparr>basic_ctrl := 0x80\<rparr>, env_idle) = Inr (s1, e1) \<and>
     in_reset s1 \<and> status s1 = STATUS_BUSY \<and> timer e1 = Some (ESDI_TIME * 50) \<and>
     timer_fire hw_1000 (s1, e1) = Inr (s2, e2) \<and>
     \<not> in_reset s2 \<and> status s2 = 0x0b \<and> irq_status s2 = 0xea \<and>
     status_len s2 = 1 \<and> status_data s2 ! 0 = 0x01e0"
proof -
  have r0: "reachable adapter_0" unfolding adapter_0_def by (rule reachable_init)
  have r1: "reachable (adapter_0\<lparr>basic_ctrl := 0x80\<rparr>)"
    by (rule reachable_step [OF r0, of hw_1000 "Io_write 0x3512 0x80" env_idle _ env_idle])
       (simp add: esdi_write_def irq_defs machine_defs)
  show ?thesis
    using C8_reset_sequence [OF r1, of "0x3512" "0x00" env_idle hw_1000]
    by (simp add: adapter_0_def esdi_init_def STATUS_LEN_def)
qed

end
